theory Spec2Isabelle
  imports Complex_Main "HOL-Library.Word"
begin

section \<open>Token configuration strings (tokens.js)\<close>

text \<open>
  JavaScript strings are modelled as \<open>string\<close> (a list of characters). The two string
  primitives the parser relies on are \<open>String.prototype.split\<close> with a one character
  separator and \<open>Array.prototype.join\<close>.

  \<open>'abc'.split(':')\<close> is \<open>['abc']\<close> and \<open>''.split(':')\<close> is \<open>['']\<close>: the result always
  holds at least one field.
\<close>

fun split_on :: "char \<Rightarrow> string \<Rightarrow> string list" where
  "split_on c [] = [[]]"
| "split_on c (x # xs) =
     (if x = c then [] # split_on c xs
      else (case split_on c xs of
              [] \<Rightarrow> [[x]]
            | f # fs \<Rightarrow> (x # f) # fs))"

fun join_with :: "char \<Rightarrow> string list \<Rightarrow> string" where
  "join_with c [] = []"
| "join_with c [f] = f"
| "join_with c (f # g # fs) = f @ c # join_with c (g # fs)"

text \<open>
  \<open>Buffer.prototype.toString('hex')\<close>: two lower-case hexadecimal digits per byte.
\<close>

definition hexDigit :: "nat \<Rightarrow> char" where
  "hexDigit n = ''0123456789abcdef'' ! (n mod 16)"

definition byteToHex :: "8 word \<Rightarrow> string" where
  "byteToHex b = [hexDigit (unat b div 16), hexDigit (unat b mod 16)]"

definition toHex :: "8 word list \<Rightarrow> string" where
  "toHex bs = concat (map byteToHex bs)"

text \<open>
  A token configuration as the wallet stores it: the object \<open>{uid, name, symbol}\<close>.
\<close>

record token_config =
  uid :: string
  name :: string
  symbol :: string

text \<open>
  \<open>getConfigurationString(uid, name, symbol)\<close>. The parameter \<open>getChecksum\<close> stands for
  \<open>transaction.getChecksum(buffer.Buffer.from(\<cdot>))\<close>, which lives in transaction.js: it maps
  the text to the bytes of its checksum.
\<close>

definition getConfigurationString ::
  "(string \<Rightarrow> 8 word list) \<Rightarrow> string \<Rightarrow> string \<Rightarrow> string \<Rightarrow> string" where
  "getConfigurationString getChecksum uid' name' symbol' =
     (let partialConfig = name' @ '':'' @ symbol' @ '':'' @ uid';
          checksum = getChecksum partialConfig
      in ''['' @ partialConfig @ '':'' @ toHex checksum @ '']'')"

text \<open>
  \<open>config.slice(1, -1)\<close>: the string without its first and its last character (empty when
  the string has fewer than three characters).
\<close>

definition slice_1_m1 :: "string \<Rightarrow> string" where
  "slice_1_m1 config = butlast (tl config)"

text \<open>
  \<open>getTokenFromConfigurationString(config)\<close>; \<open>None\<close> is the returned \<open>null\<close>. The first test
  \<open>!config\<close> is the empty string. \<open>configArr.splice(-1)\<close> removes the last field and returns
  it, each \<open>configArr.pop()\<close> removes the then last field; the array holds at least four
  fields when they run, so none of them meets an empty array.
\<close>

definition getTokenFromConfigurationString ::
  "(string \<Rightarrow> 8 word list) \<Rightarrow> string \<Rightarrow> token_config option" where
  "getTokenFromConfigurationString getChecksum config =
     (case config of
        [] \<Rightarrow> None
      | c0 # _ \<Rightarrow>
          if c0 \<noteq> CHR ''['' \<or> last config \<noteq> CHR '']'' then None
          else
            let configArr = split_on CHR '':'' (slice_1_m1 config) in
            if length configArr < 4 then None
            else
              let checksum = last configArr;
                  configArr1 = butlast configArr;
                  configWithoutChecksum = join_with CHR '':'' configArr1;
                  correctChecksum = getChecksum configWithoutChecksum
              in
                if toHex correctChecksum \<noteq> checksum then None
                else
                  let uid' = last configArr1;
                      configArr2 = butlast configArr1;
                      symbol' = last configArr2;
                      configArr3 = butlast configArr2;
                      name' = join_with CHR '':'' configArr3
                  in Some \<lparr>uid = uid', name = name', symbol = symbol'\<rparr>)"

text \<open>
  The parser's decisions, named after the words of the specification: the text between the
  brackets is cut at every colon into fields; the brackets are malformed when the string is
  empty, does not start with an opening or does not end with a closing bracket; the
  trailing field is the last field, and the text without it is the text between the
  brackets up to (excluding) the colon in front of the trailing field.
\<close>

definition config_fields :: "string \<Rightarrow> string list" where
  "config_fields config = split_on CHR '':'' (slice_1_m1 config)"

definition brackets_malformed :: "string \<Rightarrow> bool" where
  "brackets_malformed config \<longleftrightarrow>
     (case config of [] \<Rightarrow> True | c0 # _ \<Rightarrow> c0 \<noteq> CHR ''['' \<or> last config \<noteq> CHR '']'')"

definition trailing_field :: "string \<Rightarrow> string" where
  "trailing_field config = last (config_fields config)"

definition without_trailing_field :: "string \<Rightarrow> string" where
  "without_trailing_field config =
     take (length (slice_1_m1 config) - Suc (length (trailing_field config))) (slice_1_m1 config)"

text \<open>
  What the parser does with the fields once the brackets are accepted.
\<close>

definition parse_fields :: "(string \<Rightarrow> 8 word list) \<Rightarrow> string list \<Rightarrow> token_config option" where
  "parse_fields g configArr =
     (if length configArr < 4 then None
      else if toHex (g (join_with CHR '':'' (butlast configArr))) \<noteq> last configArr then None
      else Some \<lparr>uid = last (butlast configArr),
                  name = join_with CHR '':'' (butlast (butlast (butlast configArr))),
                  symbol = last (butlast (butlast configArr))\<rparr>)"

text \<open>
  The checksum itself (a double SHA-256 cut to four bytes) is computed outside tokens.js.
  For evaluating the functions on concrete inputs a fixed four byte value stands in for it;
  every property below is proved for an arbitrary checksum function.
\<close>

definition example_checksum :: "string \<Rightarrow> 8 word list" where
  "example_checksum s = [0x6b, 0x13, 0xb9, 0x78]"

section \<open>Constants and token index (tokens.js, constants.js)\<close>

text \<open>
  The constants tokens.js imports from constants.js. Their values are not fixed here:
  every function below takes them as a parameter.
\<close>

record constants =
  HATHOR_TOKEN_CONFIG :: token_config
  TOKEN_CREATION_MASK :: int
  TOKEN_MINT_MASK :: int
  TOKEN_MELT_MASK :: int
  AUTHORITY_TOKEN_DATA :: int





text \<open>
  Values for these constants, for evaluating the functions on concrete inputs: the native
  token with uid \<open>00\<close>, three distinct mask bits, and a token data with the authority bit
  set.
\<close>

definition example_constants :: constants where
  "example_constants =
     \<lparr>HATHOR_TOKEN_CONFIG = \<lparr>uid = ''00'', name = ''Hathor'', symbol = ''HTR''\<rparr>,
      TOKEN_CREATION_MASK = 1, TOKEN_MINT_MASK = 2, TOKEN_MELT_MASK = 4,
      AUTHORITY_TOKEN_DATA = 129\<rparr>"


section \<open>JavaScript numbers that hold amounts\<close>

text \<open>
  Amounts are JavaScript numbers, that is IEEE 754 doubles, holding integers. An amount
  that the code reads (the value of an output in the history, the amount asked for) is
  modelled as an \<open>int\<close>; the integers that are doubles are those whose magnitude, written
  in binary, fits into 53 significant bits and stays below \<open>2 ^ 1024\<close>. A number that the
  code computes is the exact result rounded to the nearest double, to the one with the even
  significand when two are equally near, and to an infinity when the rounded magnitude
  reaches \<open>2 ^ 1024\<close>. Sums and differences of integers are integers again, or infinite.

  \<open>bit_length n\<close> is the number of binary digits of a positive \<open>n\<close>; above \<open>2 ^ 53\<close> two
  neighbouring doubles of that magnitude lie \<open>2 ^ (bit_length n - 53)\<close> apart.
\<close>

function bit_length :: "int \<Rightarrow> nat" where
  "bit_length n = (if n \<le> 0 then 0 else Suc (bit_length (n div 2)))"
  by pat_completeness auto
termination
  by (relation "measure nat") auto

definition double_spacing :: "int \<Rightarrow> int" where
  "double_spacing n = (if n < 2 ^ 53 then 1 else 2 ^ (bit_length n - 53))"

definition round_to_double :: "int \<Rightarrow> int" where
  "round_to_double n =
     (let u = double_spacing n; q = n div u; r = n mod u
      in if 2 * r < u \<or> (2 * r = u \<and> even q) then q * u else (q + 1) * u)"

datatype jsnum = Finite int | PosInfinity | NegInfinity

definition js_round :: "int \<Rightarrow> jsnum" where
  "js_round x =
     (let m = round_to_double \<bar>x\<bar>
      in if 2 ^ 1024 \<le> m then (if 0 < x then PosInfinity else NegInfinity)
         else Finite (if x < 0 then - m else m))"

text \<open>
  The operations of the code on a computed number and an amount it has read: \<open>+\<close>, \<open>-\<close>,
  \<open>>=\<close> and \<open>>\<close>. An infinite number stays infinite when a finite amount is added or
  subtracted, so no other value (no \<open>NaN\<close>) can arise.
\<close>

fun js_add :: "jsnum \<Rightarrow> int \<Rightarrow> jsnum" where
  "js_add (Finite a) v = js_round (a + v)"
| "js_add PosInfinity v = PosInfinity"
| "js_add NegInfinity v = NegInfinity"

fun js_sub :: "jsnum \<Rightarrow> int \<Rightarrow> jsnum" where
  "js_sub (Finite a) v = js_round (a - v)"
| "js_sub PosInfinity v = PosInfinity"
| "js_sub NegInfinity v = NegInfinity"

fun js_ge :: "jsnum \<Rightarrow> int \<Rightarrow> bool" where
  "js_ge (Finite a) v \<longleftrightarrow> a \<ge> v"
| "js_ge PosInfinity v \<longleftrightarrow> True"
| "js_ge NegInfinity v \<longleftrightarrow> False"

fun js_gt :: "jsnum \<Rightarrow> int \<Rightarrow> bool" where
  "js_gt (Finite a) v \<longleftrightarrow> a > v"
| "js_gt PosInfinity v \<longleftrightarrow> True"
| "js_gt NegInfinity v \<longleftrightarrow> False"

section \<open>Transaction skeletons and the wallet (tokens.js, wallet.js)\<close>

text \<open>
  The objects tokens.js builds. The field names carry a prefix that tells the records
  apart; the JavaScript keys are \<open>tx_id\<close>, \<open>index\<close>, \<open>token\<close>, \<open>address\<close> for an input,
  \<open>address\<close>, \<open>value\<close> (a number) and \<open>tokenData\<close> for an output, and \<open>inputs\<close>, \<open>outputs\<close>, \<open>tokens\<close> for
  the transaction data handed to \<open>transaction.sendTransaction\<close>.

  The \<open>tokens\<close> array holds uid strings, except in \<open>createToken\<close>, which stores the
  \<open>Buffer\<close> returned by \<open>getTokenUID\<close>.
\<close>

record tx_input =
  in_tx_id :: string
  in_index :: nat
  in_token :: string
  in_address :: string

record tx_output =
  out_address :: string
  out_value :: jsnum
  out_tokenData :: int

datatype token_entry = UidString string | UidBuffer "8 word list"

record tx_data =
  tx_inputs :: "tx_input list"
  tx_outputs :: "tx_output list"
  tx_tokens :: "token_entry list"

text \<open>
  The wallet history as \<open>getMeltInputs\<close> reads it: of a transaction its \<open>tx_id\<close>,
  \<open>is_voided\<close> and \<open>outputs\<close>; of an output its \<open>value\<close>, \<open>token\<close>, \<open>spent_by\<close> (\<open>None\<close> is
  \<open>null\<close>), \<open>decoded.address\<close>, and the \<open>token_data\<close> that tells an authority output.
\<close>

record decoded =
  dec_address :: string

record txout =
  o_value :: int
  o_token :: string
  o_token_data :: int
  o_spent_by :: "string option"
  o_decoded :: decoded

record history_tx =
  h_tx_id :: string
  h_is_voided :: bool
  h_outputs :: "txout list"

text \<open>
  The wallet data object: \<open>getMeltInputs\<close> reads its \<open>historyTransactions\<close> and passes the
  whole object to \<open>wallet.isAddressMine\<close>. The type \<open>'h\<close> of the stored history is left
  open, and so is whatever else the object holds (the extension of the record).
\<close>

record 'h wallet_data =
  historyTransactions :: 'h

text \<open>
  The functions of wallet.js that tokens.js calls; wallet.js is not part of the sources at
  hand, so they are parameters. \<open>'w\<close> is the state of the wallet: \<open>getWalletData\<close> reads it
  (\<open>None\<close> is \<open>null\<close>), \<open>getAddressToUse\<close> returns an address and may change it.
\<close>

record ('w, 'h, 'x) wallet_api =
  getWalletData :: "'w \<Rightarrow> ('h, 'x) wallet_data_scheme option"
  filterHistoryTransactions :: "'h \<Rightarrow> string \<Rightarrow> history_tx list"
  isAuthorityOutput :: "txout \<Rightarrow> bool"
  isAddressMine :: "string \<Rightarrow> ('h, 'x) wallet_data_scheme \<Rightarrow> bool"
  getAddressToUse :: "'w \<Rightarrow> string \<times> 'w"

text \<open>
  The result object \<open>{inputs, inputsAmount}\<close> of \<open>getMeltInputs\<close>.
\<close>

record melt_inputs =
  mi_inputs :: "tx_input list"
  mi_inputsAmount :: jsnum

text \<open>
  \<open>getMeltInputs(amount, token)\<close>. The inner loop over \<open>tx.outputs.entries()\<close> and the outer
  loop over the filtered history are recursive functions that carry \<open>inputs\<close> and
  \<open>inputsAmount\<close>; \<open>Inl\<close> is the \<open>return\<close> from inside the loops, \<open>Inr\<close> the state with
  which a loop runs to its end. \<open>inputsAmount\<close> starts at 0 and is a computed number:
  \<open>inputsAmount += txout.value\<close> rounds, and \<open>inputsAmount >= amount\<close> compares the rounded
  total.
\<close>

fun melt_scan_outputs ::
  "('w, 'h, 'x) wallet_api \<Rightarrow> ('h, 'x) wallet_data_scheme \<Rightarrow> int \<Rightarrow> string \<Rightarrow> string \<Rightarrow>
   nat \<Rightarrow> txout list \<Rightarrow> tx_input list \<Rightarrow> jsnum \<Rightarrow>
   melt_inputs + (tx_input list \<times> jsnum)" where
  "melt_scan_outputs api data amount token txid index [] inputs inputsAmount =
     Inr (inputs, inputsAmount)"
| "melt_scan_outputs api data amount token txid index (txout # rest) inputs inputsAmount =
     (if isAuthorityOutput api txout
      then melt_scan_outputs api data amount token txid (Suc index) rest inputs inputsAmount
      else if o_spent_by txout = None \<and> o_token txout = token \<and>
              isAddressMine api (dec_address (o_decoded txout)) data
      then
        let inputs' = inputs @ [\<lparr>in_tx_id = txid, in_index = index, in_token = token,
                                  in_address = dec_address (o_decoded txout)\<rparr>];
            inputsAmount' = js_add inputsAmount (o_value txout)
        in if js_ge inputsAmount' amount
           then Inl \<lparr>mi_inputs = inputs', mi_inputsAmount = inputsAmount'\<rparr>
           else melt_scan_outputs api data amount token txid (Suc index) rest
                  inputs' inputsAmount'
      else melt_scan_outputs api data amount token txid (Suc index) rest inputs inputsAmount)"

fun melt_scan_history ::
  "('w, 'h, 'x) wallet_api \<Rightarrow> ('h, 'x) wallet_data_scheme \<Rightarrow> int \<Rightarrow> string \<Rightarrow>
   history_tx list \<Rightarrow> tx_input list \<Rightarrow> jsnum \<Rightarrow> melt_inputs option" where
  "melt_scan_history api data amount token [] inputs inputsAmount = None"
| "melt_scan_history api data amount token (tx # rest) inputs inputsAmount =
     (if h_is_voided tx
      then melt_scan_history api data amount token rest inputs inputsAmount
      else
        (case melt_scan_outputs api data amount token (h_tx_id tx) 0 (h_outputs tx)
                inputs inputsAmount of
           Inl result \<Rightarrow> Some result
         | Inr (inputs', inputsAmount') \<Rightarrow>
             melt_scan_history api data amount token rest inputs' inputsAmount'))"

definition getMeltInputs ::
  "('w, 'h, 'x) wallet_api \<Rightarrow> 'w \<Rightarrow> int \<Rightarrow> string \<Rightarrow> melt_inputs option" where
  "getMeltInputs api w amount token =
     (case getWalletData api w of
        None \<Rightarrow> None
      | Some data \<Rightarrow>
          let filteredHistory =
                filterHistoryTransactions api (historyTransactions data) token
          in melt_scan_history api data amount token filteredHistory [] (Finite 0))"

text \<open>
  \<open>transaction.sendTransaction(data, pin)\<close> lives in transaction.js and returns a promise.
  A promise is modelled by its outcome: it resolves with a response, rejects with a value,
  or never settles. The backend that decides the outcome is a parameter; it may depend on
  the transactions sent before. Every call is recorded, oldest first, in the \<open>sent\<close> list
  of the world, next to the state of the wallet and the token registry kept in storage
  under the key \<open>wallet:tokens\<close> (\<open>None\<close> while the key is unset).

  Of the response only \<open>response.tx.hash\<close> and \<open>response.tx.tokens[0]\<close> are read.
\<close>

datatype ('v, 'r) promise = Resolved 'r | Rejected 'v | Pending

record response =
  resp_tx_hash :: string
  resp_tx_token0 :: string

record 'w world =
  wallet :: 'w
  registry :: "token_config list option"
  sent :: "(tx_data \<times> string) list"

type_synonym 'v backend = "(tx_data \<times> string) list \<Rightarrow> tx_data \<Rightarrow> string \<Rightarrow> ('v, response) promise"

definition sendTransaction ::
  "'v backend \<Rightarrow> tx_data \<Rightarrow> string \<Rightarrow> 'w world \<Rightarrow> ('v, response) promise \<times> 'w world" where
  "sendTransaction backend data pin world =
     (backend (sent world) data pin, world\<lparr>sent := sent world @ [(data, pin)]\<rparr>)"

text \<open>
  \<open>meltTokens(txId, index, addressSpent, token, amount, pin, createAnotherMelt)\<close>. The result
  \<open>None\<close> is the returned \<open>null\<close>; otherwise the promise of \<open>sendTransaction\<close> is returned.
  \<open>result.inputsAmount > amount\<close> compares the rounded total of the selection, and the
  value \<open>result.inputsAmount - amount\<close> of the change output is rounded again.
\<close>

definition meltTokens ::
  "('w, 'h, 'x) wallet_api \<Rightarrow> constants \<Rightarrow> 'v backend \<Rightarrow> string \<Rightarrow> nat \<Rightarrow> string \<Rightarrow> string \<Rightarrow>
   int \<Rightarrow> string \<Rightarrow> bool \<Rightarrow> 'w world \<Rightarrow> ('v, response) promise option \<times> 'w world" where
  "meltTokens api consts backend txId index addressSpent token amount pin createAnotherMelt world =
     (case getMeltInputs api (wallet world) amount token of
        None \<Rightarrow> (None, world)
      | Some result \<Rightarrow>
          let authorityInput = \<lparr>in_tx_id = txId, in_index = index, in_token = token,
                                 in_address = addressSpent\<rparr>;
              inputs = authorityInput # mi_inputs result;
              tokens = [UidString token];
              (outputs1, w1) =
                (if js_gt (mi_inputsAmount result) amount
                 then let (newAddress, w') = getAddressToUse api (wallet world)
                      in ([\<lparr>out_address = newAddress,
                             out_value = js_sub (mi_inputsAmount result) amount,
                             out_tokenData = 1\<rparr>], w')
                 else ([], wallet world));
              (outputs2, w2) =
                (if createAnotherMelt
                 then let (newAddress, w') = getAddressToUse api w1
                      in (outputs1 @ [\<lparr>out_address = newAddress,
                                        out_value = Finite (TOKEN_MELT_MASK consts),
                                        out_tokenData = AUTHORITY_TOKEN_DATA consts\<rparr>], w')
                 else (outputs1, w1));
              newTxData = \<lparr>tx_inputs = inputs, tx_outputs = outputs2, tx_tokens = tokens\<rparr>;
              (p, world') = sendTransaction backend newTxData pin (world\<lparr>wallet := w2\<rparr>)
          in (Some p, world'))"

text \<open>
  The vocabulary of the selection, after the words of the specification. The eligible
  outputs of a transaction are, for a transaction that is not voided, its outputs that are
  no authority outputs, are unspent, carry the requested token and are paid to an address
  of the wallet, each with its position among all outputs of the transaction; a voided
  transaction has none. Each is given as the input that would spend it, with its value.
  The eligible outputs of a history are those of its transactions, in history order. The
  running total after \<open>k\<close> of them is the sum of the first \<open>k\<close> values; the computed total
  is what a JavaScript number holds after adding these values one by one, starting from
  0. The two agree as long as the eligible outputs are in the exact range: every running
  total has a magnitude of at most \<open>2 ^ 53\<close>.
\<close>

definition eligible_of_tx ::
  "('w, 'h, 'x) wallet_api \<Rightarrow> ('h, 'x) wallet_data_scheme \<Rightarrow> string \<Rightarrow> history_tx \<Rightarrow>
   (tx_input \<times> int) list" where
  "eligible_of_tx api data token tx =
     (if h_is_voided tx then []
      else
        map (\<lambda>(i, txout).
               (\<lparr>in_tx_id = h_tx_id tx, in_index = i, in_token = token,
                 in_address = dec_address (o_decoded txout)\<rparr>, o_value txout))
          (filter (\<lambda>(i, txout).
                     \<not> isAuthorityOutput api txout \<and> o_spent_by txout = None \<and>
                     o_token txout = token \<and>
                     isAddressMine api (dec_address (o_decoded txout)) data)
             (enumerate 0 (h_outputs tx))))"

definition eligible_outputs ::
  "('w, 'h, 'x) wallet_api \<Rightarrow> ('h, 'x) wallet_data_scheme \<Rightarrow> string \<Rightarrow> history_tx list \<Rightarrow>
   (tx_input \<times> int) list" where
  "eligible_outputs api data token history =
     concat (map (eligible_of_tx api data token) history)"

text \<open>
  The eligible outputs that \<open>getMeltInputs\<close> meets for a wallet data object and a token:
  those of the history as filtered by the wallet.
\<close>

definition scanned_outputs ::
  "('w, 'h, 'x) wallet_api \<Rightarrow> ('h, 'x) wallet_data_scheme \<Rightarrow> string \<Rightarrow>
   (tx_input \<times> int) list" where
  "scanned_outputs api data token =
     eligible_outputs api data token
       (filterHistoryTransactions api (historyTransactions data) token)"

definition running_total :: "(tx_input \<times> int) list \<Rightarrow> nat \<Rightarrow> int" where
  "running_total es k = sum_list (map snd (take k es))"

definition computed_total :: "(tx_input \<times> int) list \<Rightarrow> nat \<Rightarrow> jsnum" where
  "computed_total es k = foldl js_add (Finite 0) (map snd (take k es))"

definition exact_range :: "(tx_input \<times> int) list \<Rightarrow> bool" where
  "exact_range es \<longleftrightarrow>
     list_all (\<lambda>k. \<bar>running_total es k\<bar> \<le> 2 ^ 53) [0..<Suc (length es)]"

text \<open>
  Adding up a list of eligible outputs the way the loops do: add one, then compare.
\<close>

fun accumulate ::
  "int \<Rightarrow> (tx_input \<times> int) list \<Rightarrow> tx_input list \<Rightarrow> jsnum \<Rightarrow>
   melt_inputs + (tx_input list \<times> jsnum)" where
  "accumulate amount [] inputs inputsAmount = Inr (inputs, inputsAmount)"
| "accumulate amount (e # es) inputs inputsAmount =
     (if js_ge (js_add inputsAmount (snd e)) amount
      then Inl \<lparr>mi_inputs = inputs @ [fst e],
                 mi_inputsAmount = js_add inputsAmount (snd e)\<rparr>
      else accumulate amount es (inputs @ [fst e]) (js_add inputsAmount (snd e)))"

text \<open>
  A small wallet for evaluating the functions on concrete inputs. Its state is the history
  and the number of addresses handed out so far. Its history filter keeps the transactions
  with an output of the token, its authority test reads the authority bit of
  \<open>token_data\<close>, and it owns the addresses \<open>WAlice\<close> and \<open>WBob\<close>.
\<close>

definition example_api :: "(history_tx list \<times> nat, history_tx list, unit) wallet_api" where
  "example_api =
     \<lparr>getWalletData = (\<lambda>(h, n). Some \<lparr>historyTransactions = h\<rparr>),
      filterHistoryTransactions =
        (\<lambda>h token. filter (\<lambda>tx. list_ex (\<lambda>txout. o_token txout = token) (h_outputs tx)) h),
      isAuthorityOutput = (\<lambda>txout. 128 \<le> o_token_data txout),
      isAddressMine = (\<lambda>a data. a = ''WAlice'' \<or> a = ''WBob''),
      getAddressToUse = (\<lambda>(h, n). (''WNew'' @ replicate n CHR ''+'', (h, Suc n)))\<rparr>"

text \<open>
  A history with eligible outputs of 30, 50 and 20 units of the token \<open>0a\<close>, next to an
  authority output, a voided transaction, a spent output, an output of another wallet and
  an output of another token.
\<close>

definition example_history :: "history_tx list" where
  "example_history =
     [\<lparr>h_tx_id = ''t1'', h_is_voided = False,
       h_outputs =
         [\<lparr>o_value = 4, o_token = ''0a'', o_token_data = 129, o_spent_by = None,
           o_decoded = \<lparr>dec_address = ''WAlice''\<rparr>\<rparr>,
          \<lparr>o_value = 30, o_token = ''0a'', o_token_data = 1, o_spent_by = None,
           o_decoded = \<lparr>dec_address = ''WAlice''\<rparr>\<rparr>]\<rparr>,
      \<lparr>h_tx_id = ''t2'', h_is_voided = True,
       h_outputs =
         [\<lparr>o_value = 1000, o_token = ''0a'', o_token_data = 1, o_spent_by = None,
           o_decoded = \<lparr>dec_address = ''WAlice''\<rparr>\<rparr>]\<rparr>,
      \<lparr>h_tx_id = ''t3'', h_is_voided = False,
       h_outputs =
         [\<lparr>o_value = 50, o_token = ''0a'', o_token_data = 1, o_spent_by = None,
           o_decoded = \<lparr>dec_address = ''WBob''\<rparr>\<rparr>,
          \<lparr>o_value = 7, o_token = ''0a'', o_token_data = 1, o_spent_by = Some ''t9'',
           o_decoded = \<lparr>dec_address = ''WAlice''\<rparr>\<rparr>,
          \<lparr>o_value = 9, o_token = ''0a'', o_token_data = 1, o_spent_by = None,
           o_decoded = \<lparr>dec_address = ''WCarol''\<rparr>\<rparr>,
          \<lparr>o_value = 11, o_token = ''0b'', o_token_data = 1, o_spent_by = None,
           o_decoded = \<lparr>dec_address = ''WAlice''\<rparr>\<rparr>,
          \<lparr>o_value = 20, o_token = ''0a'', o_token_data = 1, o_spent_by = None,
           o_decoded = \<lparr>dec_address = ''WAlice''\<rparr>\<rparr>]\<rparr>]"

text \<open>
  Histories of one transaction whose outputs are all eligible, with values around
  \<open>2 ^ 53\<close>, where the doubles are two apart.
\<close>

definition history_of_values :: "int list \<Rightarrow> history_tx list" where
  "history_of_values vs =
     [\<lparr>h_tx_id = ''tb'', h_is_voided = False,
       h_outputs =
         map (\<lambda>v. \<lparr>o_value = v, o_token = ''0a'', o_token_data = 1, o_spent_by = None,
                    o_decoded = \<lparr>dec_address = ''WAlice''\<rparr>\<rparr>) vs\<rparr>]"

definition big_history_1 :: "history_tx list" where
  "big_history_1 = history_of_values [2 ^ 53, 1, 1]"


definition big_history_3 :: "history_tx list" where
  "big_history_3 = history_of_values [2 ^ 53 + 2, 1, 3]"

definition world_with :: "history_tx list \<Rightarrow> (history_tx list \<times> nat) world" where
  "world_with h = \<lparr>wallet = (h, 0), registry = None, sent = []\<rparr>"

text \<open>
  A backend that accepts every transaction.
\<close>

definition accepting_backend :: "string backend" where
  "accepting_backend sent_before data pin = Resolved \<lparr>resp_tx_hash = ''h1'', resp_tx_token0 = ''0a''\<rparr>"

definition example_world :: "(history_tx list \<times> nat) world" where
  "example_world = \<lparr>wallet = (example_history, 0), registry = None, sent = []\<rparr>"

section \<open>Creating and minting tokens (tokens.js)\<close>

text \<open>
  \<open>getTokenUID(txID, index)\<close> hashes the bytes of the transaction id followed by the index
  as one byte. \<open>util.buffer.hexToBuffer\<close> and \<open>crypto.Hash.sha256\<close> come from bitcore-lib and
  \<open>transaction.intToBytes\<close> from transaction.js; they are parameters. The two conversions
  may throw (\<open>Inl\<close> carries the exception).
\<close>

record 'x codec_api =
  hexToBuffer :: "string \<Rightarrow> 'x + 8 word list"
  intToBytes :: "nat \<Rightarrow> nat \<Rightarrow> 'x + 8 word list"
  sha256 :: "8 word list \<Rightarrow> 8 word list"

definition getTokenUID :: "'x codec_api \<Rightarrow> string \<Rightarrow> nat \<Rightarrow> 'x + 8 word list" where
  "getTokenUID codec txID index =
     (case hexToBuffer codec txID of
        Inl x \<Rightarrow> Inl x
      | Inr b1 \<Rightarrow>
          (case intToBytes codec index 1 of
             Inl x \<Rightarrow> Inl x
           | Inr b2 \<Rightarrow> Inr (sha256 codec (concat [b1, b2]))))"

text \<open>
  The bitwise or of JavaScript works on the 32 bit two's complement of its operands.
\<close>

definition js_bitor :: "int \<Rightarrow> int \<Rightarrow> int" where
  "js_bitor a b = sint (or (word_of_int a :: 32 word) (word_of_int b))"

text \<open>
  The token registry: \<open>getTokens\<close> reads the list kept in storage and falls back to the
  native token alone while nothing is stored; \<open>saveToStorage\<close> replaces the stored list;
  \<open>addToken\<close> appends a configuration and returns the new list.
\<close>

definition getTokens :: "constants \<Rightarrow> 'w world \<Rightarrow> token_config list" where
  "getTokens consts world =
     (case registry world of
        None \<Rightarrow> [HATHOR_TOKEN_CONFIG consts]
      | Some dataToken \<Rightarrow> dataToken)"

definition saveToStorage :: "token_config list \<Rightarrow> 'w world \<Rightarrow> 'w world" where
  "saveToStorage newTokens world = world\<lparr>registry := Some newTokens\<rparr>"

definition addToken ::
  "constants \<Rightarrow> string \<Rightarrow> string \<Rightarrow> string \<Rightarrow> 'w world \<Rightarrow> token_config list \<times> 'w world" where
  "addToken consts uid' name' symbol' world =
     (let newConfig = \<lparr>uid = uid', name = name', symbol = symbol'\<rparr>;
          tokens = getTokens consts world @ [newConfig]
      in (tokens, saveToStorage tokens world))"

text \<open>
  \<open>mintTokens(txID, index, addressSpent, token, address, amount, pin, createAnotherMint,
  createMelt)\<close> returns the promise of \<open>sendTransaction\<close>.
\<close>

definition mintTokens ::
  "constants \<Rightarrow> 'v backend \<Rightarrow> string \<Rightarrow> nat \<Rightarrow> string \<Rightarrow> string \<Rightarrow> string \<Rightarrow> int \<Rightarrow> string \<Rightarrow>
   bool \<Rightarrow> bool \<Rightarrow> 'w world \<Rightarrow> ('v, response) promise \<times> 'w world" where
  "mintTokens consts backend txID index addressSpent token address amount pin
     createAnotherMint createMelt world =
     (let input = \<lparr>in_tx_id = txID, in_index = index, in_token = token,
                    in_address = addressSpent\<rparr>;
          outputs0 = [\<lparr>out_address = address, out_value = Finite amount,
                        out_tokenData = 1\<rparr>];
          outputs1 =
            (if createAnotherMint
             then outputs0 @ [\<lparr>out_address = address,
                               out_value = Finite (TOKEN_MINT_MASK consts),
                               out_tokenData = AUTHORITY_TOKEN_DATA consts\<rparr>]
             else outputs0);
          outputs2 =
            (if createMelt
             then outputs1 @ [\<lparr>out_address = address,
                               out_value = Finite (TOKEN_MELT_MASK consts),
                               out_tokenData = AUTHORITY_TOKEN_DATA consts\<rparr>]
             else outputs1);
          newTxData = \<lparr>tx_inputs = [input], tx_outputs = outputs2,
                        tx_tokens = [UidString token]\<rparr>
      in sendTransaction backend newTxData pin world)"

text \<open>
  \<open>createToken(input, output, address, name, symbol, mintAmount, pin)\<close>. The promise it
  returns is modelled by its outcome. The callbacks run in the order the promises settle:
  when the creation resolves, the token is added to the registry and the mint is sent, and
  the outer promise settles as the mint does; when the creation rejects with \<open>e\<close>, the
  outer promise rejects with \<open>e.message\<close> (the parameter \<open>message_of\<close> reads that property)
  and nothing else happens. An exception of \<open>getTokenUID\<close> leaves \<open>createToken\<close> before
  anything is sent. The calls of \<open>console.log\<close> are left out.
\<close>

definition createToken ::
  "constants \<Rightarrow> 'x codec_api \<Rightarrow> 'v backend \<Rightarrow> ('v \<Rightarrow> 'v) \<Rightarrow> tx_input \<Rightarrow> tx_output \<Rightarrow> string \<Rightarrow>
   string \<Rightarrow> string \<Rightarrow> int \<Rightarrow> string \<Rightarrow> 'w world \<Rightarrow>
   ('x + ('v, token_config) promise) \<times> 'w world" where
  "createToken consts codec backend message_of input output' address name' symbol' mintAmount
     pin world =
     (let tokenMasks = js_bitor (js_bitor (TOKEN_CREATION_MASK consts) (TOKEN_MINT_MASK consts))
                         (TOKEN_MELT_MASK consts)
      in case getTokenUID codec (in_tx_id input) (in_index input) of
           Inl x \<Rightarrow> (Inl x, world)
         | Inr tokenUID \<Rightarrow>
             let authorityOutput = \<lparr>out_address = address, out_value = Finite tokenMasks,
                                      out_tokenData = AUTHORITY_TOKEN_DATA consts\<rparr>;
                 txData = \<lparr>tx_inputs = [input], tx_outputs = [authorityOutput, output'],
                            tx_tokens = [UidBuffer tokenUID]\<rparr>;
                 (txPromise, world1) = sendTransaction backend txData pin world
             in case txPromise of
                  Rejected e \<Rightarrow> (Inr (Rejected (message_of e)), world1)
                | Pending \<Rightarrow> (Inr Pending, world1)
                | Resolved response \<Rightarrow>
                    let (tokens, world2) =
                          addToken consts (resp_tx_token0 response) name' symbol' world1;
                        (mintPromise, world3) =
                          mintTokens consts backend (resp_tx_hash response) 0 address
                            (resp_tx_token0 response) address mintAmount pin True True world2
                    in case mintPromise of
                         Resolved r \<Rightarrow>
                           (Inr (Resolved \<lparr>uid = resp_tx_token0 response, name = name',
                                           symbol = symbol'\<rparr>), world3)
                       | Rejected message \<Rightarrow> (Inr (Rejected message), world3)
                       | Pending \<Rightarrow> (Inr Pending, world3))"

text \<open>
  The two transactions of \<open>createToken\<close>, named for stating its properties: the data of the
  creation (first phase), given the uid computed for it, and the data of the mint that
  follows (second phase), given the response to the creation.
\<close>

definition creation_tx_data ::
  "constants \<Rightarrow> 8 word list \<Rightarrow> tx_input \<Rightarrow> tx_output \<Rightarrow> string \<Rightarrow> tx_data" where
  "creation_tx_data consts tokenUID input output' address =
     \<lparr>tx_inputs = [input],
      tx_outputs =
        [\<lparr>out_address = address,
          out_value =
            Finite (js_bitor (js_bitor (TOKEN_CREATION_MASK consts) (TOKEN_MINT_MASK consts))
                      (TOKEN_MELT_MASK consts)),
          out_tokenData = AUTHORITY_TOKEN_DATA consts\<rparr>, output'],
      tx_tokens = [UidBuffer tokenUID]\<rparr>"

definition followup_mint_tx_data :: "constants \<Rightarrow> response \<Rightarrow> string \<Rightarrow> int \<Rightarrow> tx_data" where
  "followup_mint_tx_data consts response address mintAmount =
     \<lparr>tx_inputs = [\<lparr>in_tx_id = resp_tx_hash response, in_index = 0,
                     in_token = resp_tx_token0 response, in_address = address\<rparr>],
      tx_outputs =
        [\<lparr>out_address = address, out_value = Finite mintAmount, out_tokenData = 1\<rparr>,
         \<lparr>out_address = address, out_value = Finite (TOKEN_MINT_MASK consts),
           out_tokenData = AUTHORITY_TOKEN_DATA consts\<rparr>,
         \<lparr>out_address = address, out_value = Finite (TOKEN_MELT_MASK consts),
           out_tokenData = AUTHORITY_TOKEN_DATA consts\<rparr>],
      tx_tokens = [UidString (resp_tx_token0 response)]\<rparr>"

text \<open>
  A codec for evaluating on concrete inputs: it accepts every transaction id, keeps the
  low byte of the index, and its stand-in for the hash keeps the last four bytes.
\<close>

definition example_codec :: "string codec_api" where
  "example_codec =
     \<lparr>hexToBuffer = (\<lambda>s. Inr (map (\<lambda>c. of_nat (of_char c)) s)),
      intToBytes = (\<lambda>n width. Inr [of_nat n]),
      sha256 = (\<lambda>bs. drop (length bs - 4) bs)\<rparr>"

text \<open>
  Backends that refuse the first transaction, and that accept the first transaction and
  refuse every later one.
\<close>

definition refusing_backend :: "string backend" where
  "refusing_backend sent_before data pin = Rejected ''refused''"

definition mint_refusing_backend :: "string backend" where
  "mint_refusing_backend sent_before data pin =
     (if sent_before = []
      then Resolved \<lparr>resp_tx_hash = ''h1'', resp_tx_token0 = ''0c''\<rparr>
      else Rejected ''mint refused'')"

definition example_input :: tx_input where
  "example_input = \<lparr>in_tx_id = ''ab'', in_index = 2, in_token = ''00'', in_address = ''WAlice''\<rparr>"

definition example_change :: tx_output where
  "example_change = \<lparr>out_address = ''WBob'', out_value = Finite 99, out_tokenData = 0\<rparr>"

text \<open>
  The rejection values of the example backends are strings; their \<open>message\<close> is taken to
  be the string with a prefix, to tell \<open>e.message\<close> from \<open>e\<close>.
\<close>

definition example_message_of :: "string \<Rightarrow> string" where
  "example_message_of e = ''message of '' @ e"

section \<open>The mining state machine (wallet/sendTransaction.js)\<close>

text \<open>
  The responses of the mining service. Of the response to \<open>submitJob\<close> the class reads
  \<open>expected_total_time\<close> and \<open>job_id\<close>; of the response to \<open>getJobStatus\<close> it reads \<open>status\<close>,
  \<open>expected_total_time\<close> and, when the status is \<open>done\<close>, the fields \<open>nonce\<close>, \<open>parents\<close>,
  \<open>timestamp\<close> and \<open>weight\<close> of \<open>tx\<close>. Times are numbers of seconds, modelled as \<open>real\<close>.
\<close>

record submit_response =
  sr_expected_total_time :: real
  sr_job_id :: string

record mined_tx =
  mt_nonce :: string
  mt_parents :: "string list"
  mt_timestamp :: int
  mt_weight :: real

record status_response =
  st_status :: string
  st_expected_total_time :: real
  st_tx :: mined_tx

text \<open>
  The events the class emits, with their payloads. \<open>jobID\<close> and \<open>estimation\<close> are read from
  the object, where they are \<open>null\<close> (\<open>None\<close>) until a submission has been answered. The
  type \<open>'n\<close> is that of the parsed nonce.
\<close>

datatype 'n event =
    JobSubmitted "real option" "string option"
  | EstimationUpdated "string option" real
  | JobDone "string option"
  | Success 'n "string list" int real
  | SendError string
  | UnexpectedError string

text \<open>
  What the object does to the outside, in order: it emits an event, it calls
  \<open>txMiningApi.submitJob(txHex, false, true, null, ...)\<close>, or it sets a timer of so many
  milliseconds after which it calls \<open>txMiningApi.getJobStatus\<close>. The job recorded with
  the timer is \<open>this.jobID\<close> at the moment the timer is set.
\<close>

datatype 'n effect =
    Emit "'n event"
  | SubmitJob string
  | GetJobStatus "string option" real

text \<open>
  The class keeps no state variable; where it stands is given by the callbacks it waits
  for. The \<open>phase\<close> tells what the object did last: before \<open>start\<close> it is idle; after
  \<open>submitJob\<close> it waits for the answer to the submission; after \<open>handleJobStatus\<close> it waits
  for the timer and the answer to the status request; after emitting \<open>success\<close> it is done,
  and after emitting \<open>send-error\<close> or \<open>unexpected-error\<close> it has failed.

  \<open>start\<close> has no guard: it may be called again at any time, also while a callback
  waits, and that callback keeps waiting. \<open>more_submitting\<close> and \<open>more_polling\<close> count the
  callbacks that wait for the answer to a submission or to a status request besides the
  one the phase tells of. On an object that is started once both stay 0.
\<close>

datatype phase = Idle | Submitting | Polling | Done | Failed

record ('t, 'n) send_transaction =
  transaction :: 't
  estimation :: "real option"
  jobID :: "string option"
  countTxMiningAttempts :: int
  maxTxMiningRetries :: int
  phase :: phase
  trace :: "'n effect list"
  more_submitting :: nat
  more_polling :: nat

text \<open>
  What the class takes from outside: the floor of the polling interval (constants.js), the
  serialisation \<open>transaction.toHex()\<close> of the transaction it holds, and \<open>parseInt(\<cdot>, 16)\<close>.
\<close>

record ('t, 'n) mining_env =
  MIN_POLLING_INTERVAL :: real
  toHex_of :: "'t \<Rightarrow> string"
  parseInt16 :: "string \<Rightarrow> 'n"

text \<open>
  The error messages set by the constructor.
\<close>

definition noMinersError :: string where
  "noMinersError = ''There are no miners to resolve the proof of work of this transaction.''"

definition unexpectedError :: string where
  "unexpectedError =
     ''An unexpected error happened. Please try to send your transaction again.''"

definition timeoutError :: string where
  "timeoutError =
     ''Timeout solving transaction'' @ [CHR 0x27] @ ''s proof-of-work.'' @ [CHR 0x0A, CHR 0x0A] @
     ''All transactions need to solve a proof-of-work as an anti spam mechanism. '' @
     ''Currently, Hathor Labs provides this service for free, but their servers may be '' @
     ''fully loaded right now.''"

text \<open>
  The constructor; the default of \<open>options\<close> is \<open>{ maxTxMiningRetries: 3 }\<close>.
\<close>

definition new_SendTransaction :: "'t \<Rightarrow> int \<Rightarrow> ('t, 'n) send_transaction" where
  "new_SendTransaction tx maxRetries =
     \<lparr>transaction = tx, estimation = None, jobID = None, countTxMiningAttempts = 0,
      maxTxMiningRetries = maxRetries, phase = Idle, trace = [],
      more_submitting = 0, more_polling = 0\<rparr>"

definition default_maxTxMiningRetries :: int where
  "default_maxTxMiningRetries = 3"

definition emit :: "'n event \<Rightarrow> ('t, 'n) send_transaction \<Rightarrow> ('t, 'n) send_transaction" where
  "emit ev s = s\<lparr>trace := trace s @ [Emit ev]\<rparr>"

text \<open>
  \<open>handleJobStatus()\<close> computes the delay and sets the timer for the status request. In
  \<open>this.estimation / 2\<close> a \<open>null\<close> estimation counts as 0.
\<close>

definition handleJobStatus ::
  "('t, 'n) mining_env \<Rightarrow> ('t, 'n) send_transaction \<Rightarrow> ('t, 'n) send_transaction" where
  "handleJobStatus env s =
     (let poll_time =
            max ((case estimation s of None \<Rightarrow> 0 | Some e \<Rightarrow> e) / 2) (MIN_POLLING_INTERVAL env)
              * 1000
      in s\<lparr>trace := trace s @ [GetJobStatus (jobID s) poll_time], phase := Polling\<rparr>)"

text \<open>
  \<open>submitJob()\<close> up to the call of the service, and its two callbacks: the one for the
  response and the \<open>catch\<close>.
\<close>

definition submitJob ::
  "('t, 'n) mining_env \<Rightarrow> ('t, 'n) send_transaction \<Rightarrow> ('t, 'n) send_transaction" where
  "submitJob env s =
     (let txHex = toHex_of env (transaction s)
      in s\<lparr>countTxMiningAttempts := countTxMiningAttempts s + 1,
           trace := trace s @ [SubmitJob txHex],
           phase := Submitting\<rparr>)"

definition onSubmitResponse ::
  "('t, 'n) mining_env \<Rightarrow> submit_response \<Rightarrow> ('t, 'n) send_transaction \<Rightarrow>
   ('t, 'n) send_transaction" where
  "onSubmitResponse env response s =
     (if sr_expected_total_time response = - 1
      then (emit (SendError noMinersError) s)\<lparr>phase := Failed\<rparr>
      else
        let s1 = s\<lparr>estimation := Some (sr_expected_total_time response),
                   jobID := Some (sr_job_id response)\<rparr>;
            s2 = emit (JobSubmitted (estimation s1) (jobID s1)) s1
        in handleJobStatus env s2)"

definition onSubmitFailure :: "('t, 'n) send_transaction \<Rightarrow> ('t, 'n) send_transaction" where
  "onSubmitFailure s = (emit (UnexpectedError unexpectedError) s)\<lparr>phase := Failed\<rparr>"

text \<open>
  The callbacks of the status request inside \<open>handleJobStatus\<close>: the one for the response
  and the \<open>catch\<close>.
\<close>

definition onJobStatus ::
  "('t, 'n) mining_env \<Rightarrow> status_response \<Rightarrow> ('t, 'n) send_transaction \<Rightarrow>
   ('t, 'n) send_transaction" where
  "onJobStatus env response s =
     (if st_status response = ''done''
      then
        let s1 = emit (JobDone (jobID s)) s;
            s2 = emit (Success (parseInt16 env (mt_nonce (st_tx response)))
                         (mt_parents (st_tx response)) (mt_timestamp (st_tx response))
                         (mt_weight (st_tx response))) s1
        in s2\<lparr>phase := Done\<rparr>
      else if st_status response = ''timeout''
      then
        (if countTxMiningAttempts s < maxTxMiningRetries s
         then submitJob env s
         else (emit (SendError timeoutError) s)\<lparr>phase := Failed\<rparr>)
      else
        (if st_expected_total_time response = - 1
         then (emit (SendError noMinersError) s)\<lparr>phase := Failed\<rparr>
         else
           let s1 = s\<lparr>estimation := Some (st_expected_total_time response)\<rparr>;
               s2 = emit (EstimationUpdated (jobID s1) (st_expected_total_time response)) s1
           in handleJobStatus env s2))"

definition onJobStatusFailure :: "('t, 'n) send_transaction \<Rightarrow> ('t, 'n) send_transaction" where
  "onJobStatusFailure s = (emit (UnexpectedError unexpectedError) s)\<lparr>phase := Failed\<rparr>"

definition start ::
  "('t, 'n) mining_env \<Rightarrow> ('t, 'n) send_transaction \<Rightarrow> ('t, 'n) send_transaction" where
  "start env s = submitJob env s"

text \<open>
  A run of an object. What reaches the object is a call of \<open>start\<close>, the answer to a
  submission (a response, or a failure of the transport), and the answer to a status
  request. A call of \<open>start\<close> submits, whatever the object did before; a callback that
  waits then is counted among the further waiting callbacks (\<open>suspend\<close>). An answer is
  delivered to a callback that waits for it: to the one the phase tells of, or else to one
  of the further ones, which is then no longer counted. All callbacks of a kind are the
  same function of the object, so it does not matter which of them takes the answer.
  Where no such callback waits, no request is open and nothing happens.
\<close>

datatype message =
    Start
  | SubmitResponded submit_response
  | SubmitFailed
  | StatusResponded status_response
  | StatusFailed

definition suspend :: "('t, 'n) send_transaction \<Rightarrow> ('t, 'n) send_transaction" where
  "suspend s =
     (case phase s of
        Submitting \<Rightarrow> s\<lparr>more_submitting := more_submitting s + 1\<rparr>
      | Polling \<Rightarrow> s\<lparr>more_polling := more_polling s + 1\<rparr>
      | _ \<Rightarrow> s)"

definition take_submitting :: "('t, 'n) send_transaction \<Rightarrow> ('t, 'n) send_transaction" where
  "take_submitting s = suspend (s\<lparr>more_submitting := more_submitting s - 1\<rparr>)"

definition take_polling :: "('t, 'n) send_transaction \<Rightarrow> ('t, 'n) send_transaction" where
  "take_polling s = suspend (s\<lparr>more_polling := more_polling s - 1\<rparr>)"

fun step ::
  "('t, 'n) mining_env \<Rightarrow> ('t, 'n) send_transaction \<Rightarrow> message \<Rightarrow> ('t, 'n) send_transaction" where
  "step env s Start = start env (suspend s)"
| "step env s (SubmitResponded r) =
     (if phase s = Submitting then onSubmitResponse env r s
      else if 0 < more_submitting s then onSubmitResponse env r (take_submitting s)
      else s)"
| "step env s SubmitFailed =
     (if phase s = Submitting then onSubmitFailure s
      else if 0 < more_submitting s then onSubmitFailure (take_submitting s)
      else s)"
| "step env s (StatusResponded r) =
     (if phase s = Polling then onJobStatus env r s
      else if 0 < more_polling s then onJobStatus env r (take_polling s)
      else s)"
| "step env s StatusFailed =
     (if phase s = Polling then onJobStatusFailure s
      else if 0 < more_polling s then onJobStatusFailure (take_polling s)
      else s)"

definition run ::
  "('t, 'n) mining_env \<Rightarrow> ('t, 'n) send_transaction \<Rightarrow> message list \<Rightarrow> ('t, 'n) send_transaction" where
  "run env s msgs = foldl (step env) s msgs"

text \<open>
  Counting in a trace: the submissions, the status polls, and the resubmissions, which are
  the submissions made after the first status poll.
\<close>

fun is_submission :: "'n effect \<Rightarrow> bool" where
  "is_submission (SubmitJob h) = True"
| "is_submission e = False"

fun is_poll :: "'n effect \<Rightarrow> bool" where
  "is_poll (GetJobStatus j t) = True"
| "is_poll e = False"

definition submissions :: "('t, 'n) send_transaction \<Rightarrow> nat" where
  "submissions s = length (filter is_submission (trace s))"

definition polls :: "('t, 'n) send_transaction \<Rightarrow> nat" where
  "polls s = length (filter is_poll (trace s))"

definition resubmissions :: "('t, 'n) send_transaction \<Rightarrow> nat" where
  "resubmissions s =
     length (filter is_submission (dropWhile (\<lambda>e. \<not> is_poll e) (trace s)))"

text \<open>
  The answers of a run in which every submission is answered by the given response and
  every status poll by the given status response, in turn.
\<close>

fun answers :: "(submit_response \<times> status_response) list \<Rightarrow> message list" where
  "answers [] = []"
| "answers ((r, t) # cycles) = SubmitResponded r # StatusResponded t # answers cycles"

definition accepted :: "submit_response \<Rightarrow> bool" where
  "accepted r \<longleftrightarrow> sr_expected_total_time r \<noteq> - 1"

definition timed_out :: "status_response \<Rightarrow> bool" where
  "timed_out t \<longleftrightarrow> st_status t = ''timeout''"

text \<open>
  An environment and responses for evaluating on concrete inputs.
\<close>

definition example_env :: "(string, nat) mining_env" where
  "example_env =
     \<lparr>MIN_POLLING_INTERVAL = 1 / 2, toHex_of = (\<lambda>t. t), parseInt16 = (\<lambda>h. length h)\<rparr>"

definition example_accept :: submit_response where
  "example_accept = \<lparr>sr_expected_total_time = 10, sr_job_id = ''job1''\<rparr>"

definition example_no_miners :: submit_response where
  "example_no_miners = \<lparr>sr_expected_total_time = - 1, sr_job_id = ''job1''\<rparr>"

definition example_mined :: mined_tx where
  "example_mined = \<lparr>mt_nonce = ''ff'', mt_parents = [], mt_timestamp = 0, mt_weight = 1\<rparr>"

definition example_timeout :: status_response where
  "example_timeout =
     \<lparr>st_status = ''timeout'', st_expected_total_time = 10, st_tx = example_mined\<rparr>"

definition example_mining :: status_response where
  "example_mining =
     \<lparr>st_status = ''mining'', st_expected_total_time = 6, st_tx = example_mined\<rparr>"

definition example_mining_no_miners :: status_response where
  "example_mining_no_miners =
     \<lparr>st_status = ''mining'', st_expected_total_time = - 1, st_tx = example_mined\<rparr>"

definition example_timeouts :: "nat \<Rightarrow> (submit_response \<times> status_response) list" where
  "example_timeouts n = replicate n (example_accept, example_timeout)"

text \<open>
  The state of the example object after \<open>start\<close> and an accepted submission: it waits for
  the answer to its first status request.
\<close>

definition polling_state :: "(string, nat) send_transaction" where
  "polling_state =
     \<lparr>transaction = ''00ff'', estimation = Some 10, jobID = Some ''job1'',
      countTxMiningAttempts = 1, maxTxMiningRetries = 3, phase = Polling,
      trace = [SubmitJob ''00ff'', Emit (JobSubmitted (Some 10) (Some ''job1'')),
               GetJobStatus (Some ''job1'') 5000],
      more_submitting = 0, more_polling = 0\<rparr>"

section \<open>Properties of the configuration string\<close>

lemma split_on_not_Nil: "split_on c s \<noteq> []"
  by (induction s) (auto split: list.splits)

lemma join_with_split_on: "join_with c (split_on c s) = s"
proof (induction s)
  case Nil
  show ?case by simp
next
  case (Cons x xs)
  obtain f fs where sp: "split_on c xs = f # fs"
    using split_on_not_Nil [of c xs] by (cases "split_on c xs") auto
  show ?case
  proof (cases "x = c")
    case True
    then show ?thesis using Cons sp by simp
  next
    case False
    have "join_with c ((x # f) # fs) = x # join_with c (f # fs)"
      by (cases fs) auto
    then show ?thesis using False Cons sp by simp
  qed
qed

lemma split_on_append_sep: "split_on c (s @ c # t) = split_on c s @ split_on c t"
proof (induction s)
  case Nil
  show ?case by simp
next
  case (Cons x xs)
  obtain f fs where sp: "split_on c xs = f # fs"
    using split_on_not_Nil [of c xs] by (cases "split_on c xs") auto
  show ?case using Cons sp by simp
qed

lemma split_on_no_sep: "c \<notin> set t \<Longrightarrow> split_on c t = [t]"
  by (induction t) auto

lemma join_with_snoc: "fs \<noteq> [] \<Longrightarrow> join_with c (fs @ [f]) = join_with c fs @ c # f"
  by (induction c fs rule: join_with.induct) auto

lemma hexDigit_not_colon: "hexDigit n \<noteq> CHR '':''"
proof -
  have "n mod 16 < length ''0123456789abcdef''" by simp
  then have "hexDigit n \<in> set ''0123456789abcdef''"
    unfolding hexDigit_def by (rule nth_mem)
  then show ?thesis by auto
qed

lemma byteToHex_no_colon: "CHR '':'' \<notin> set (byteToHex b)"
  using hexDigit_not_colon [of "unat b div 16"] hexDigit_not_colon [of "unat b mod 16"]
  by (auto simp: byteToHex_def)

lemma toHex_no_colon: "CHR '':'' \<notin> set (toHex bs)"
  by (simp add: toHex_def byteToHex_no_colon)

lemma parse_bracketed:
  "getTokenFromConfigurationString g (CHR ''['' # inner @ '']'')
     = parse_fields g (split_on CHR '':'' inner)"
  by (simp add: getTokenFromConfigurationString_def slice_1_m1_def parse_fields_def Let_def)

lemma parse_general:
  "getTokenFromConfigurationString g config =
     (if brackets_malformed config then None else parse_fields g (config_fields config))"
  by (cases config)
     (auto simp: getTokenFromConfigurationString_def brackets_malformed_def parse_fields_def
                 config_fields_def Let_def)

lemma parse_of_configuration_string:
  assumes "CHR '':'' \<notin> set symbol'" "CHR '':'' \<notin> set uid'"
  shows "getTokenFromConfigurationString g (getConfigurationString g uid' name' symbol')
         = Some \<lparr>uid = uid', name = name', symbol = symbol'\<rparr>"
proof -
  define partial where "partial = name' @ '':'' @ symbol' @ '':'' @ uid'"
  define hex where "hex = toHex (g partial)"
  define ns where "ns = split_on CHR '':'' name'"
  have ne: "ns \<noteq> []" by (simp add: ns_def split_on_not_Nil)
  have cfg: "getConfigurationString g uid' name' symbol'
             = CHR ''['' # (partial @ CHR '':'' # hex) @ '']''"
    by (simp add: getConfigurationString_def Let_def hex_def partial_def)
  have sp_partial: "split_on CHR '':'' partial = ns @ [symbol', uid']"
    using assms by (simp add: partial_def split_on_append_sep split_on_no_sep ns_def)
  have sp: "split_on CHR '':'' (partial @ CHR '':'' # hex) = ns @ [symbol', uid', hex]"
    using toHex_no_colon [of "g partial"]
    by (simp add: split_on_append_sep sp_partial split_on_no_sep hex_def)
  have j1: "join_with CHR '':'' (ns @ [symbol', uid']) = partial"
    using join_with_split_on [of "CHR '':''" partial] by (simp add: sp_partial)
  have j2: "join_with CHR '':'' ns = name'"
    by (simp add: ns_def join_with_split_on)
  have "parse_fields g (ns @ [symbol', uid', hex])
        = Some \<lparr>uid = uid', name = name', symbol = symbol'\<rparr>"
    using ne by (simp add: parse_fields_def butlast_append j1 j2 hex_def)
  then show ?thesis
    by (simp only: cfg parse_bracketed sp)
qed

lemma parsed_fields_positions:
  assumes "getTokenFromConfigurationString g config = Some t"
  shows "4 \<le> length (config_fields config) \<and>
         uid t = config_fields config ! (length (config_fields config) - 2) \<and>
         symbol t = config_fields config ! (length (config_fields config) - 3) \<and>
         name t = join_with CHR '':''
                    (take (length (config_fields config) - 3) (config_fields config))"
proof -
  define fs where "fs = config_fields config"
  have len: "4 \<le> length fs" and t: "t = \<lparr>uid = last (butlast fs),
                  name = join_with CHR '':'' (butlast (butlast (butlast fs))),
                  symbol = last (butlast (butlast fs))\<rparr>"
    using assms by (auto simp: parse_general parse_fields_def fs_def split: if_splits)
  have n1: "butlast fs \<noteq> []" and n2: "butlast (butlast fs) \<noteq> []"
    using len by (auto simp: butlast_conv_take)
  have e2: "length fs - Suc (Suc 0) = length fs - 2"
    by simp
  have "last (butlast fs) = fs ! (length fs - 2)"
    using len by (simp add: last_conv_nth [OF n1] nth_butlast e2)
  moreover have "last (butlast (butlast fs)) = fs ! (length fs - 3)"
    using len by (simp add: last_conv_nth [OF n2] nth_butlast numeral_3_eq_3)
  moreover have "butlast (butlast (butlast fs)) = take (length fs - 3) fs"
    by (simp add: butlast_conv_take numeral_3_eq_3)
  ultimately show ?thesis using len t by (simp add: fs_def)
qed

lemma colon_in_symbol_moves_into_name:
  "getTokenFromConfigurationString g (getConfigurationString g ''00ab'' ''My'' ''M:K'')
     = Some \<lparr>uid = ''00ab'', name = ''My:M'', symbol = ''K''\<rparr>"
proof -
  have cfg: "getConfigurationString g ''00ab'' ''My'' ''M:K''
      = CHR ''['' # (''My:M:K:00ab'' @ CHR '':'' # toHex (g ''My:M:K:00ab'')) @ '']''"
    by (simp add: getConfigurationString_def Let_def)
  have sp: "split_on CHR '':'' (''My:M:K:00ab'' @ CHR '':'' # toHex (g ''My:M:K:00ab''))
      = [''My'', ''M'', ''K'', ''00ab'', toHex (g ''My:M:K:00ab'')]"
    using toHex_no_colon [of "g ''My:M:K:00ab''"]
    by (simp add: split_on_append_sep split_on_no_sep)
  show ?thesis
    by (simp only: cfg parse_bracketed sp) (simp add: parse_fields_def)
qed

lemma join_butlast_fields:
  assumes "2 \<le> length (split_on c s)"
  shows "join_with c (butlast (split_on c s))
         = take (length s - Suc (length (last (split_on c s)))) s"
proof -
  define fs where "fs = split_on c s"
  have ne: "butlast fs \<noteq> []" using assms by (cases fs rule: rev_cases) (auto simp: fs_def)
  have "fs \<noteq> []" using assms by (auto simp: fs_def)
  then have "fs = butlast fs @ [last fs]" by simp
  then have "join_with c fs = join_with c (butlast fs) @ c # last fs"
    using join_with_snoc [OF ne, of c "last fs"] by simp
  then have "s = join_with c (butlast fs) @ c # last fs"
    by (simp add: fs_def join_with_split_on)
  then have "take (length s - Suc (length (last fs))) s = join_with c (butlast fs)"
    by (metis (no_types, lifting) append_eq_conv_conj length_append length_Cons
        add_diff_cancel_right')
  then show ?thesis by (simp add: fs_def)
qed

text \<open>
  Claim C3, as amended. Provided that neither the symbol nor the uid contains a colon,
  parsing the configuration string produced for a uid, a name and a symbol gives back
  exactly that uid, name and symbol, for every name (with or without colons, with or
  without brackets) and every checksum function. Moreover, whenever the parser accepts a
  string, the uid is the field before the checksum, the symbol the field before the uid,
  and the name the remaining leading fields joined by colons again.
\<close>

theorem C3_configuration_string_roundtrip:
  "(CHR '':'' \<notin> set symbol' \<longrightarrow> CHR '':'' \<notin> set uid' \<longrightarrow>
      getTokenFromConfigurationString g (getConfigurationString g uid' name' symbol')
        = Some \<lparr>uid = uid', name = name', symbol = symbol'\<rparr>) \<and>
   (\<forall>config t. getTokenFromConfigurationString g config = Some t \<longrightarrow>
      4 \<le> length (config_fields config) \<and>
      uid t = config_fields config ! (length (config_fields config) - 2) \<and>
      symbol t = config_fields config ! (length (config_fields config) - 3) \<and>
      name t = join_with CHR '':''
                 (take (length (config_fields config) - 3) (config_fields config)))"
  using parse_of_configuration_string [of symbol' uid' g name'] parsed_fields_positions [of g]
  by blast

theorem C3_configuration_string_roundtrip_witness:
  "CHR '':'' \<notin> set ''MTK'' \<and> CHR '':'' \<notin> set ''00ab'' \<and>
   getTokenFromConfigurationString example_checksum
     (getConfigurationString example_checksum ''00ab'' ''My:Token'' ''MTK'')
     = Some \<lparr>uid = ''00ab'', name = ''My:Token'', symbol = ''MTK''\<rparr> \<and>
   getTokenFromConfigurationString example_checksum ''[My:Token:MTK:00ab:6b13b978]''
     = Some \<lparr>uid = ''00ab'', name = ''My:Token'', symbol = ''MTK''\<rparr> \<and>
   config_fields ''[My:Token:MTK:00ab:6b13b978]'' ! (5 - 2) = ''00ab'' \<and>
   config_fields ''[My:Token:MTK:00ab:6b13b978]'' ! (5 - 3) = ''MTK'' \<and>
   join_with CHR '':'' (take (5 - 3) (config_fields ''[My:Token:MTK:00ab:6b13b978]''))
     = ''My:Token''"
proof -
  have h1: "CHR '':'' \<notin> set ''MTK''" and h2: "CHR '':'' \<notin> set ''00ab''"
    by simp_all
  note inst = C3_configuration_string_roundtrip
    [of "''MTK''" "''00ab''" example_checksum "''My:Token''"]
  have cfg: "getConfigurationString example_checksum ''00ab'' ''My:Token'' ''MTK''
             = ''[My:Token:MTK:00ab:6b13b978]''"
    by (simp add: getConfigurationString_def example_checksum_def toHex_def byteToHex_def
        hexDigit_def)
  have rt0: "getTokenFromConfigurationString example_checksum
     (getConfigurationString example_checksum ''00ab'' ''My:Token'' ''MTK'')
     = Some \<lparr>uid = ''00ab'', name = ''My:Token'', symbol = ''MTK''\<rparr>"
    using inst [THEN conjunct1, rule_format, OF h1 h2] .
  have rt: "getTokenFromConfigurationString example_checksum ''[My:Token:MTK:00ab:6b13b978]''
      = Some \<lparr>uid = ''00ab'', name = ''My:Token'', symbol = ''MTK''\<rparr>"
    using rt0 by (simp only: cfg)
  have len: "length (config_fields ''[My:Token:MTK:00ab:6b13b978]'') = 5"
    by (simp add: config_fields_def slice_1_m1_def)
  note pos = inst [THEN conjunct2, rule_format, OF rt, unfolded len]
  have p1: "config_fields ''[My:Token:MTK:00ab:6b13b978]'' ! (5 - 2) = ''00ab''"
    using pos [THEN conjunct2, THEN conjunct1] by (simp only: token_config.simps)
  have p2: "config_fields ''[My:Token:MTK:00ab:6b13b978]'' ! (5 - 3) = ''MTK''"
    using pos [THEN conjunct2, THEN conjunct2, THEN conjunct1] by (simp only: token_config.simps)
  have p3: "join_with CHR '':'' (take (5 - 3) (config_fields ''[My:Token:MTK:00ab:6b13b978]''))
     = ''My:Token''"
    using pos [THEN conjunct2, THEN conjunct2, THEN conjunct2] by (simp only: token_config.simps)
  show ?thesis
    by (intro conjI h1 h2 rt0 rt p1 p2 p3)
qed

text \<open>
  The claim as first stated asks nothing of the symbol. A symbol with a colon in it does
  not come back: its part before the colon is read as the end of the name. The name
  \<open>My\<close> used here has no brackets.
\<close>

theorem C3_symbol_with_colon_counterexample:
  "getTokenFromConfigurationString example_checksum
     (getConfigurationString example_checksum ''00ab'' ''My'' ''M:K'')
     = Some \<lparr>uid = ''00ab'', name = ''My:M'', symbol = ''K''\<rparr> \<and>
   getTokenFromConfigurationString example_checksum
     (getConfigurationString example_checksum ''00ab'' ''My'' ''M:K'')
     \<noteq> Some \<lparr>uid = ''00ab'', name = ''My'', symbol = ''M:K''\<rparr>"
  by (simp add: colon_in_symbol_moves_into_name)

text \<open>
  Claim C4. For every string the parser returns \<open>null\<close> when the brackets are malformed,
  when the text between them has fewer than four colon separated fields, or when the
  checksum of everything in front of the trailing field differs from the trailing field;
  and in no other case. The function is total on strings: none of its steps can raise.
\<close>

theorem C4_malformed_configuration_string_is_null:
  "getTokenFromConfigurationString g config = None \<longleftrightarrow>
     brackets_malformed config \<or> length (config_fields config) < 4 \<or>
     toHex (g (without_trailing_field config)) \<noteq> trailing_field config"
proof (cases "brackets_malformed config \<or> length (config_fields config) < 4")
  case True
  then show ?thesis by (auto simp: parse_general parse_fields_def)
next
  case False
  then have "2 \<le> length (split_on CHR '':'' (slice_1_m1 config))"
    by (simp add: config_fields_def)
  from join_butlast_fields [OF this]
  have "join_with CHR '':'' (butlast (config_fields config)) = without_trailing_field config"
    by (simp add: without_trailing_field_def trailing_field_def config_fields_def)
  with False show ?thesis
    by (simp add: parse_general parse_fields_def trailing_field_def)
qed

theorem C4_malformed_configuration_string_is_null_witness:
  "brackets_malformed ''My:Token:MTK:00ab:6b13b978]'' \<and>
   getTokenFromConfigurationString example_checksum ''My:Token:MTK:00ab:6b13b978]'' = None \<and>
   length (config_fields ''[MTK:00ab:6b13b978]'') < 4 \<and>
   getTokenFromConfigurationString example_checksum ''[MTK:00ab:6b13b978]'' = None \<and>
   toHex (example_checksum (without_trailing_field ''[Token:MTK:00ab:6b13b979]''))
     \<noteq> trailing_field ''[Token:MTK:00ab:6b13b979]'' \<and>
   getTokenFromConfigurationString example_checksum ''[Token:MTK:00ab:6b13b979]'' = None"
proof -
  have a: "brackets_malformed ''My:Token:MTK:00ab:6b13b978]''"
    by (simp add: brackets_malformed_def)
  have b: "length (config_fields ''[MTK:00ab:6b13b978]'') < 4"
    by (simp add: config_fields_def slice_1_m1_def)
  have c: "toHex (example_checksum (without_trailing_field ''[Token:MTK:00ab:6b13b979]''))
     \<noteq> trailing_field ''[Token:MTK:00ab:6b13b979]''"
    by (simp add: example_checksum_def toHex_def byteToHex_def hexDigit_def trailing_field_def
        config_fields_def slice_1_m1_def)
  show ?thesis
    using a b c
      C4_malformed_configuration_string_is_null [of example_checksum "''My:Token:MTK:00ab:6b13b978]''"]
      C4_malformed_configuration_string_is_null [of example_checksum "''[MTK:00ab:6b13b978]''"]
      C4_malformed_configuration_string_is_null [of example_checksum "''[Token:MTK:00ab:6b13b979]''"]
    by blast
qed

section \<open>Properties of the token index\<close>






section \<open>Properties of the selection of melt inputs\<close>

lemma round_to_double_small: "n < 2 ^ 53 \<Longrightarrow> round_to_double n = n"
  by (simp add: round_to_double_def double_spacing_def)

lemma bit_length_power: "bit_length (2 ^ k) = Suc k"
  by (induction k) simp_all

lemma round_to_double_2_53: "round_to_double (2 ^ 53) = 2 ^ 53"
proof -
  have "bit_length (2 ^ 53) = 54"
    by (simp only: bit_length_power)
  then have "double_spacing (2 ^ 53) = 2"
    by (simp add: double_spacing_def del: bit_length.simps)
  then show ?thesis
    by (simp add: round_to_double_def Let_def del: bit_length.simps)
qed

lemma round_to_double_exact: "n \<le> 2 ^ 53 \<Longrightarrow> round_to_double n = n"
  using round_to_double_small [of n] round_to_double_2_53
  by (cases "n = 2 ^ 53") auto

lemma js_round_exact: "\<bar>x\<bar> \<le> 2 ^ 53 \<Longrightarrow> js_round x = Finite x"
proof -
  assume a: "\<bar>x\<bar> \<le> 2 ^ 53"
  have r: "round_to_double \<bar>x\<bar> = \<bar>x\<bar>"
    by (rule round_to_double_exact [OF a])
  have "(2::int) ^ 53 < 2 ^ 1024" by simp
  with a have lt: "\<not> (2::int) ^ 1024 \<le> \<bar>x\<bar>" by linarith
  show ?thesis
    unfolding js_round_def Let_def r using lt by auto
qed

lemma melt_scan_outputs_accumulate:
  "melt_scan_outputs api data amount token txid index outs inputs inputsAmount =
     accumulate amount
       (map (\<lambda>(i, txout).
               (\<lparr>in_tx_id = txid, in_index = i, in_token = token,
                 in_address = dec_address (o_decoded txout)\<rparr>, o_value txout))
          (filter (\<lambda>(i, txout).
                     \<not> isAuthorityOutput api txout \<and> o_spent_by txout = None \<and>
                     o_token txout = token \<and>
                     isAddressMine api (dec_address (o_decoded txout)) data)
             (enumerate index outs)))
       inputs inputsAmount"
  by (induction outs arbitrary: index inputs inputsAmount) (simp_all add: Let_def)

lemma accumulate_append:
  "accumulate amount (xs @ ys) inputs inputsAmount =
     (case accumulate amount xs inputs inputsAmount of
        Inl r \<Rightarrow> Inl r
      | Inr (inputs', inputsAmount') \<Rightarrow> accumulate amount ys inputs' inputsAmount')"
  by (induction xs arbitrary: inputs inputsAmount) simp_all

lemma melt_scan_history_accumulate:
  "melt_scan_history api data amount token history inputs inputsAmount =
     (case accumulate amount (eligible_outputs api data token history) inputs inputsAmount of
        Inl r \<Rightarrow> Some r
      | Inr _ \<Rightarrow> None)"
proof (induction history arbitrary: inputs inputsAmount)
  case Nil
  show ?case by (simp add: eligible_outputs_def)
next
  case (Cons tx rest)
  have unfold: "eligible_outputs api data token (tx # rest)
        = eligible_of_tx api data token tx @ eligible_outputs api data token rest"
    by (simp add: eligible_outputs_def)
  show ?case
  proof (cases "h_is_voided tx")
    case True
    then show ?thesis using Cons.IH by (simp add: unfold eligible_of_tx_def)
  next
    case False
    then show ?thesis
      using Cons.IH
      by (simp add: unfold accumulate_append melt_scan_outputs_accumulate eligible_of_tx_def
          split: sum.splits prod.splits)
  qed
qed

text \<open>
  The number the loops hold after \<open>k\<close> more outputs, starting from the number \<open>a\<close>.
\<close>

lemma total_from_Suc:
  "foldl js_add a (map snd (take (Suc k) (e # es)))
   = foldl js_add (js_add a (snd e)) (map snd (take k es))"
  by simp

lemma accumulate_Inl:
  "accumulate amount es inputs a = Inl r \<Longrightarrow>
     \<exists>k. 1 \<le> k \<and> k \<le> length es \<and>
         mi_inputs r = inputs @ map fst (take k es) \<and>
         mi_inputsAmount r = foldl js_add a (map snd (take k es)) \<and>
         js_ge (foldl js_add a (map snd (take k es))) amount \<and>
         (\<forall>j. 1 \<le> j \<and> j < k \<longrightarrow> \<not> js_ge (foldl js_add a (map snd (take j es))) amount)"
proof (induction es arbitrary: inputs a)
  case Nil
  then show ?case by simp
next
  case (Cons e es)
  show ?case
  proof (cases "js_ge (js_add a (snd e)) amount")
    case True
    with Cons.prems have r: "r = \<lparr>mi_inputs = inputs @ [fst e],
                                   mi_inputsAmount = js_add a (snd e)\<rparr>"
      by simp
    with True show ?thesis
      by (intro exI [of _ 1]) simp
  next
    case False
    with Cons.prems have "accumulate amount es (inputs @ [fst e]) (js_add a (snd e)) = Inl r"
      by simp
    from Cons.IH [OF this] obtain k where k: "1 \<le> k" "k \<le> length es"
      "mi_inputs r = (inputs @ [fst e]) @ map fst (take k es)"
      "mi_inputsAmount r = foldl js_add (js_add a (snd e)) (map snd (take k es))"
      "js_ge (foldl js_add (js_add a (snd e)) (map snd (take k es))) amount"
      "\<forall>j. 1 \<le> j \<and> j < k \<longrightarrow>
           \<not> js_ge (foldl js_add (js_add a (snd e)) (map snd (take j es))) amount"
      by blast
    have small: "\<not> js_ge (foldl js_add a (map snd (take j (e # es)))) amount"
      if "1 \<le> j" "j < Suc k" for j
    proof (cases j)
      case 0
      with that show ?thesis by simp
    next
      case (Suc j')
      show ?thesis
      proof (cases j')
        case 0
        with Suc False show ?thesis by simp
      next
        case (Suc j'')
        with \<open>j = Suc j'\<close> that k(6) show ?thesis
          by simp
      qed
    qed
    show ?thesis
      using k small
      by (intro exI [of _ "Suc k"]) simp
  qed
qed

lemma accumulate_Inr:
  "accumulate amount es inputs a = Inr s \<Longrightarrow>
     (\<forall>k. 1 \<le> k \<and> k \<le> length es \<longrightarrow> \<not> js_ge (foldl js_add a (map snd (take k es))) amount)"
proof (induction es arbitrary: inputs a)
  case Nil
  then show ?case by simp
next
  case (Cons e es)
  from Cons.prems have small: "\<not> js_ge (js_add a (snd e)) amount"
    by (auto split: if_splits)
  with Cons.prems have "accumulate amount es (inputs @ [fst e]) (js_add a (snd e)) = Inr s"
    by simp
  note ih = Cons.IH [OF this]
  show ?case
  proof (intro allI impI)
    fix k assume k: "1 \<le> k \<and> k \<le> length (e # es)"
    then obtain k' where k': "k = Suc k'" by (cases k) auto
    show "\<not> js_ge (foldl js_add a (map snd (take k (e # es)))) amount"
    proof (cases k')
      case 0
      with k' small show ?thesis by simp
    next
      case (Suc k'')
      with k k' ih show ?thesis by simp
    qed
  qed
qed

lemma getMeltInputs_accumulate:
  "getWalletData api w = Some data \<Longrightarrow>
   getMeltInputs api w amount token =
     (case accumulate amount (scanned_outputs api data token) [] (Finite 0) of
        Inl r \<Rightarrow> Some r
      | Inr _ \<Rightarrow> None)"
  by (simp add: getMeltInputs_def melt_scan_history_accumulate scanned_outputs_def)

lemma exact_range_bound:
  assumes "exact_range es" and "k \<le> length es"
  shows "\<bar>running_total es k\<bar> \<le> 2 ^ 53"
proof -
  have "k \<in> set [0..<Suc (length es)]"
    using assms(2) by (simp del: upt_Suc)
  with assms(1) show ?thesis
    unfolding exact_range_def list_all_iff by blast
qed

lemma computed_total_exact:
  assumes "exact_range es" and "k \<le> length es"
  shows "computed_total es k = Finite (running_total es k)"
  using assms(2)
proof (induction k)
  case 0
  show ?case by (simp add: computed_total_def running_total_def)
next
  case (Suc k)
  then have k: "k < length es" by simp
  have tk: "take (Suc k) es = take k es @ [es ! k]"
    by (rule take_Suc_conv_app_nth [OF k])
  have ih: "computed_total es k = Finite (running_total es k)"
    using Suc by simp
  have bound: "\<bar>running_total es (Suc k)\<bar> \<le> 2 ^ 53"
    using assms(1) Suc.prems by (rule exact_range_bound)
  have step: "running_total es (Suc k) = running_total es k + snd (es ! k)"
    by (simp add: running_total_def tk)
  have "computed_total es (Suc k) = js_add (computed_total es k) (snd (es ! k))"
    by (simp add: computed_total_def tk)
  also have "\<dots> = js_round (running_total es (Suc k))"
    by (simp add: ih step)
  also have "\<dots> = Finite (running_total es (Suc k))"
    by (rule js_round_exact [OF bound])
  finally show ?case .
qed

text \<open>
  What the selector returns, in terms of the computed totals.
\<close>

lemma getMeltInputs_computed:
  assumes d: "getWalletData api w = Some data"
  shows "case getMeltInputs api w amount token of
         None \<Rightarrow>
           \<forall>k. 1 \<le> k \<and> k \<le> length (scanned_outputs api data token) \<longrightarrow>
               \<not> js_ge (computed_total (scanned_outputs api data token) k) amount
       | Some r \<Rightarrow>
           \<exists>k. 1 \<le> k \<and> k \<le> length (scanned_outputs api data token) \<and>
               mi_inputs r = map fst (take k (scanned_outputs api data token)) \<and>
               mi_inputsAmount r = computed_total (scanned_outputs api data token) k \<and>
               js_ge (computed_total (scanned_outputs api data token) k) amount \<and>
               (\<forall>j. 1 \<le> j \<and> j < k \<longrightarrow>
                  \<not> js_ge (computed_total (scanned_outputs api data token) j) amount)"
proof -
  define es where "es = scanned_outputs api data token"
  note g = getMeltInputs_accumulate [OF d, where amount = amount and token = token,
      folded es_def]
  show ?thesis
    unfolding es_def [symmetric]
  proof (cases "accumulate amount es [] (Finite 0)")
    case (Inl r)
    from accumulate_Inl [OF Inl] obtain k where
      "1 \<le> k" "k \<le> length es" "mi_inputs r = map fst (take k es)"
      "mi_inputsAmount r = computed_total es k" "js_ge (computed_total es k) amount"
      "\<forall>j. 1 \<le> j \<and> j < k \<longrightarrow> \<not> js_ge (computed_total es j) amount"
      by (auto simp: computed_total_def)
    then have "\<exists>k. 1 \<le> k \<and> k \<le> length es \<and> mi_inputs r = map fst (take k es) \<and>
               mi_inputsAmount r = computed_total es k \<and> js_ge (computed_total es k) amount \<and>
               (\<forall>j. 1 \<le> j \<and> j < k \<longrightarrow> \<not> js_ge (computed_total es j) amount)"
      by (intro exI [of _ k]) simp
    with g Inl show "case getMeltInputs api w amount token of
         None \<Rightarrow> \<forall>k. 1 \<le> k \<and> k \<le> length es \<longrightarrow> \<not> js_ge (computed_total es k) amount
       | Some r \<Rightarrow>
           \<exists>k. 1 \<le> k \<and> k \<le> length es \<and> mi_inputs r = map fst (take k es) \<and>
               mi_inputsAmount r = computed_total es k \<and> js_ge (computed_total es k) amount \<and>
               (\<forall>j. 1 \<le> j \<and> j < k \<longrightarrow> \<not> js_ge (computed_total es j) amount)"
      by simp
  next
    case (Inr s)
    from accumulate_Inr [OF Inr] g Inr show "case getMeltInputs api w amount token of
         None \<Rightarrow> \<forall>k. 1 \<le> k \<and> k \<le> length es \<longrightarrow> \<not> js_ge (computed_total es k) amount
       | Some r \<Rightarrow>
           \<exists>k. 1 \<le> k \<and> k \<le> length es \<and> mi_inputs r = map fst (take k es) \<and>
               mi_inputsAmount r = computed_total es k \<and> js_ge (computed_total es k) amount \<and>
               (\<forall>j. 1 \<le> j \<and> j < k \<longrightarrow> \<not> js_ge (computed_total es j) amount)"
      by (simp add: computed_total_def)
  qed
qed

lemma getMeltInputs_exact:
  assumes d: "getWalletData api w = Some data"
    and ex: "exact_range (scanned_outputs api data token)"
  shows "case getMeltInputs api w amount token of
         None \<Rightarrow>
           \<forall>k. 1 \<le> k \<and> k \<le> length (scanned_outputs api data token) \<longrightarrow>
               running_total (scanned_outputs api data token) k < amount
       | Some r \<Rightarrow>
           \<exists>k. 1 \<le> k \<and> k \<le> length (scanned_outputs api data token) \<and>
               mi_inputs r = map fst (take k (scanned_outputs api data token)) \<and>
               mi_inputsAmount r = Finite (running_total (scanned_outputs api data token) k) \<and>
               amount \<le> running_total (scanned_outputs api data token) k \<and>
               (\<forall>j. 1 \<le> j \<and> j < k \<longrightarrow>
                  running_total (scanned_outputs api data token) j < amount)"
proof -
  define es where "es = scanned_outputs api data token"
  have ct: "computed_total es k = Finite (running_total es k)" if "k \<le> length es" for k
    using computed_total_exact [OF ex [folded es_def] that] .
  note c = getMeltInputs_computed [OF d, where amount = amount and token = token,
      folded es_def]
  show ?thesis
    unfolding es_def [symmetric]
  proof (cases "getMeltInputs api w amount token")
    case None
    with c have "\<forall>k. 1 \<le> k \<and> k \<le> length es \<longrightarrow> \<not> js_ge (computed_total es k) amount"
      by simp
    then have "\<forall>k. 1 \<le> k \<and> k \<le> length es \<longrightarrow> running_total es k < amount"
      using ct by fastforce
    with None show "case getMeltInputs api w amount token of
         None \<Rightarrow> \<forall>k. 1 \<le> k \<and> k \<le> length es \<longrightarrow> running_total es k < amount
       | Some r \<Rightarrow>
           \<exists>k. 1 \<le> k \<and> k \<le> length es \<and> mi_inputs r = map fst (take k es) \<and>
               mi_inputsAmount r = Finite (running_total es k) \<and>
               amount \<le> running_total es k \<and>
               (\<forall>j. 1 \<le> j \<and> j < k \<longrightarrow> running_total es j < amount)"
      by simp
  next
    case (Some r)
    with c obtain k where k: "1 \<le> k" "k \<le> length es" "mi_inputs r = map fst (take k es)"
      "mi_inputsAmount r = computed_total es k" "js_ge (computed_total es k) amount"
      "\<forall>j. 1 \<le> j \<and> j < k \<longrightarrow> \<not> js_ge (computed_total es j) amount"
      by auto
    have a: "mi_inputsAmount r = Finite (running_total es k)"
      using k(4) ct [OF k(2)] by simp
    have b: "amount \<le> running_total es k"
      using k(5) ct [OF k(2)] by simp
    have c': "\<forall>j. 1 \<le> j \<and> j < k \<longrightarrow> running_total es j < amount"
    proof (intro allI impI)
      fix j assume j: "1 \<le> j \<and> j < k"
      then have "j \<le> length es" using k(2) by simp
      from ct [OF this] k(6) j show "running_total es j < amount" by fastforce
    qed
    have "\<exists>k. 1 \<le> k \<and> k \<le> length es \<and> mi_inputs r = map fst (take k es) \<and>
               mi_inputsAmount r = Finite (running_total es k) \<and>
               amount \<le> running_total es k \<and>
               (\<forall>j. 1 \<le> j \<and> j < k \<longrightarrow> running_total es j < amount)"
      using k(1,2,3) a b c' by (intro exI [of _ k]) simp
    with Some show "case getMeltInputs api w amount token of
         None \<Rightarrow> \<forall>k. 1 \<le> k \<and> k \<le> length es \<longrightarrow> running_total es k < amount
       | Some r \<Rightarrow>
           \<exists>k. 1 \<le> k \<and> k \<le> length es \<and> mi_inputs r = map fst (take k es) \<and>
               mi_inputsAmount r = Finite (running_total es k) \<and>
               amount \<le> running_total es k \<and>
               (\<forall>j. 1 \<le> j \<and> j < k \<longrightarrow> running_total es j < amount)"
      by simp
  qed
qed

lemma example_data: "getWalletData example_api (example_history, 0)
                     = Some \<lparr>historyTransactions = example_history\<rparr>"
  by (simp add: example_api_def)

lemma example_scanned:
  "scanned_outputs example_api \<lparr>historyTransactions = example_history\<rparr> ''0a''
   = [(\<lparr>in_tx_id = ''t1'', in_index = 1, in_token = ''0a'', in_address = ''WAlice''\<rparr>, 30),
      (\<lparr>in_tx_id = ''t3'', in_index = 0, in_token = ''0a'', in_address = ''WBob''\<rparr>, 50),
      (\<lparr>in_tx_id = ''t3'', in_index = 4, in_token = ''0a'', in_address = ''WAlice''\<rparr>, 20)]"
  by (simp add: scanned_outputs_def eligible_outputs_def eligible_of_tx_def example_api_def
      example_history_def enumerate_eq_zip upt_rec)

lemma example_exact_range:
  "exact_range (scanned_outputs example_api \<lparr>historyTransactions = example_history\<rparr> ''0a'')"
  by (simp add: example_scanned exact_range_def running_total_def upt_rec)

lemma js_round_small [simp]:
  "js_round 30 = Finite 30" "js_round 80 = Finite 80" "js_round 100 = Finite 100"
  by (simp_all add: js_round_exact)

lemma example_select_40:
  "getMeltInputs example_api (example_history, 0) 40 ''0a'' =
   Some \<lparr>mi_inputs =
           [\<lparr>in_tx_id = ''t1'', in_index = 1, in_token = ''0a'', in_address = ''WAlice''\<rparr>,
            \<lparr>in_tx_id = ''t3'', in_index = 0, in_token = ''0a'', in_address = ''WBob''\<rparr>],
         mi_inputsAmount = Finite 80\<rparr>"
  by (simp add: getMeltInputs_def example_api_def example_history_def)

lemma example_select_101:
  "getMeltInputs example_api (example_history, 0) 101 ''0a'' = None"
  by (simp add: getMeltInputs_def example_api_def example_history_def)

text \<open>
  Claim C1, as amended. When the wallet has no data the selector returns \<open>null\<close>.
  Otherwise it walks the filtered history in order over exactly the eligible outputs
  (outputs of the requested token that are no authority outputs, are unspent and belong
  to the wallet, in transactions that are not voided), adds each value to a JavaScript
  number and compares that number with the target only after adding an output. It returns
  the shortest non-empty prefix of the eligible outputs whose computed total reaches or
  exceeds the target, with that computed total as \<open>inputsAmount\<close>; it returns \<open>null\<close> when
  the computed total of no non-empty prefix reaches the target. As long as every running
  total of the eligible outputs has a magnitude of at most \<open>2 ^ 53\<close>, the computed totals
  are the exact sums: then \<open>inputsAmount\<close> is the sum of the selected values, and \<open>null\<close>
  means that no non-empty prefix has a sum that reaches the target.
\<close>

theorem C1_getMeltInputs_selection:
  "(getWalletData api w = None \<longrightarrow> getMeltInputs api w amount token = None) \<and>
   (\<forall>data. getWalletData api w = Some data \<longrightarrow>
      (case getMeltInputs api w amount token of
         None \<Rightarrow>
           \<forall>k. 1 \<le> k \<and> k \<le> length (scanned_outputs api data token) \<longrightarrow>
               \<not> js_ge (computed_total (scanned_outputs api data token) k) amount
       | Some r \<Rightarrow>
           \<exists>k. 1 \<le> k \<and> k \<le> length (scanned_outputs api data token) \<and>
               mi_inputs r = map fst (take k (scanned_outputs api data token)) \<and>
               mi_inputsAmount r = computed_total (scanned_outputs api data token) k \<and>
               js_ge (computed_total (scanned_outputs api data token) k) amount \<and>
               (\<forall>j. 1 \<le> j \<and> j < k \<longrightarrow>
                  \<not> js_ge (computed_total (scanned_outputs api data token) j) amount))) \<and>
   (\<forall>data. getWalletData api w = Some data \<and> exact_range (scanned_outputs api data token) \<longrightarrow>
      (case getMeltInputs api w amount token of
         None \<Rightarrow>
           \<forall>k. 1 \<le> k \<and> k \<le> length (scanned_outputs api data token) \<longrightarrow>
               running_total (scanned_outputs api data token) k < amount
       | Some r \<Rightarrow>
           \<exists>k. 1 \<le> k \<and> k \<le> length (scanned_outputs api data token) \<and>
               mi_inputs r = map fst (take k (scanned_outputs api data token)) \<and>
               mi_inputsAmount r = Finite (running_total (scanned_outputs api data token) k) \<and>
               amount \<le> running_total (scanned_outputs api data token) k \<and>
               (\<forall>j. 1 \<le> j \<and> j < k \<longrightarrow>
                  running_total (scanned_outputs api data token) j < amount)))"
proof (intro conjI allI impI)
  assume "getWalletData api w = None"
  then show "getMeltInputs api w amount token = None"
    by (simp add: getMeltInputs_def)
next
  fix data
  assume "getWalletData api w = Some data"
  then show "case getMeltInputs api w amount token of
         None \<Rightarrow>
           \<forall>k. 1 \<le> k \<and> k \<le> length (scanned_outputs api data token) \<longrightarrow>
               \<not> js_ge (computed_total (scanned_outputs api data token) k) amount
       | Some r \<Rightarrow>
           \<exists>k. 1 \<le> k \<and> k \<le> length (scanned_outputs api data token) \<and>
               mi_inputs r = map fst (take k (scanned_outputs api data token)) \<and>
               mi_inputsAmount r = computed_total (scanned_outputs api data token) k \<and>
               js_ge (computed_total (scanned_outputs api data token) k) amount \<and>
               (\<forall>j. 1 \<le> j \<and> j < k \<longrightarrow>
                  \<not> js_ge (computed_total (scanned_outputs api data token) j) amount)"
    by (rule getMeltInputs_computed)
next
  fix data
  assume "getWalletData api w = Some data \<and> exact_range (scanned_outputs api data token)"
  then show "case getMeltInputs api w amount token of
         None \<Rightarrow>
           \<forall>k. 1 \<le> k \<and> k \<le> length (scanned_outputs api data token) \<longrightarrow>
               running_total (scanned_outputs api data token) k < amount
       | Some r \<Rightarrow>
           \<exists>k. 1 \<le> k \<and> k \<le> length (scanned_outputs api data token) \<and>
               mi_inputs r = map fst (take k (scanned_outputs api data token)) \<and>
               mi_inputsAmount r = Finite (running_total (scanned_outputs api data token) k) \<and>
               amount \<le> running_total (scanned_outputs api data token) k \<and>
               (\<forall>j. 1 \<le> j \<and> j < k \<longrightarrow>
                  running_total (scanned_outputs api data token) j < amount)"
    using getMeltInputs_exact [of api w data token amount] by blast
qed

theorem C1_getMeltInputs_selection_witness:
  "getWalletData example_api (example_history, 0)
     = Some \<lparr>historyTransactions = example_history\<rparr> \<and>
   exact_range (scanned_outputs example_api \<lparr>historyTransactions = example_history\<rparr> ''0a'') \<and>
   getMeltInputs example_api (example_history, 0) 40 ''0a'' =
     Some \<lparr>mi_inputs =
             [\<lparr>in_tx_id = ''t1'', in_index = 1, in_token = ''0a'', in_address = ''WAlice''\<rparr>,
              \<lparr>in_tx_id = ''t3'', in_index = 0, in_token = ''0a'', in_address = ''WBob''\<rparr>],
           mi_inputsAmount = Finite 80\<rparr> \<and>
   (\<exists>k. 1 \<le> k \<and>
        k \<le> length (scanned_outputs example_api
                       \<lparr>historyTransactions = example_history\<rparr> ''0a'') \<and>
        [\<lparr>in_tx_id = ''t1'', in_index = 1, in_token = ''0a'', in_address = ''WAlice''\<rparr>,
         \<lparr>in_tx_id = ''t3'', in_index = 0, in_token = ''0a'', in_address = ''WBob''\<rparr>]
          = map fst (take k (scanned_outputs example_api
                               \<lparr>historyTransactions = example_history\<rparr> ''0a'')) \<and>
        Finite 80 = Finite (running_total (scanned_outputs example_api
                              \<lparr>historyTransactions = example_history\<rparr> ''0a'') k) \<and>
        40 \<le> running_total (scanned_outputs example_api
                              \<lparr>historyTransactions = example_history\<rparr> ''0a'') k \<and>
        (\<forall>j. 1 \<le> j \<and> j < k \<longrightarrow>
           running_total (scanned_outputs example_api
                            \<lparr>historyTransactions = example_history\<rparr> ''0a'') j < 40)) \<and>
   (\<exists>k. 1 \<le> k \<and>
        k \<le> length (scanned_outputs example_api
                       \<lparr>historyTransactions = example_history\<rparr> ''0a'') \<and>
        Finite 80 = computed_total (scanned_outputs example_api
                              \<lparr>historyTransactions = example_history\<rparr> ''0a'') k \<and>
        js_ge (computed_total (scanned_outputs example_api
                              \<lparr>historyTransactions = example_history\<rparr> ''0a'') k) 40) \<and>
   getMeltInputs example_api (example_history, 0) 101 ''0a'' = None \<and>
   running_total (scanned_outputs example_api
                    \<lparr>historyTransactions = example_history\<rparr> ''0a'') 3 < 101"
proof -
  note hyp = conjI [OF example_data example_exact_range]
  note a = C1_getMeltInputs_selection [of example_api "(example_history, 0)" 40 "''0a''",
      THEN conjunct2, THEN conjunct2, rule_format, OF hyp]
  note b = C1_getMeltInputs_selection [of example_api "(example_history, 0)" 101 "''0a''",
      THEN conjunct2, THEN conjunct2, rule_format, OF hyp]
  note c = C1_getMeltInputs_selection [of example_api "(example_history, 0)" 40 "''0a''",
      THEN conjunct2, THEN conjunct1, rule_format, OF example_data]
  have a': "\<exists>k. 1 \<le> k \<and>
        k \<le> length (scanned_outputs example_api
                       \<lparr>historyTransactions = example_history\<rparr> ''0a'') \<and>
        [\<lparr>in_tx_id = ''t1'', in_index = 1, in_token = ''0a'', in_address = ''WAlice''\<rparr>,
         \<lparr>in_tx_id = ''t3'', in_index = 0, in_token = ''0a'', in_address = ''WBob''\<rparr>]
          = map fst (take k (scanned_outputs example_api
                               \<lparr>historyTransactions = example_history\<rparr> ''0a'')) \<and>
        Finite 80 = Finite (running_total (scanned_outputs example_api
                              \<lparr>historyTransactions = example_history\<rparr> ''0a'') k) \<and>
        40 \<le> running_total (scanned_outputs example_api
                              \<lparr>historyTransactions = example_history\<rparr> ''0a'') k \<and>
        (\<forall>j. 1 \<le> j \<and> j < k \<longrightarrow>
           running_total (scanned_outputs example_api
                            \<lparr>historyTransactions = example_history\<rparr> ''0a'') j < 40)"
    using a by (simp only: example_select_40 option.case melt_inputs.simps)
  from c have "\<exists>k. 1 \<le> k \<and>
        k \<le> length (scanned_outputs example_api
                       \<lparr>historyTransactions = example_history\<rparr> ''0a'') \<and>
        [\<lparr>in_tx_id = ''t1'', in_index = 1, in_token = ''0a'', in_address = ''WAlice''\<rparr>,
         \<lparr>in_tx_id = ''t3'', in_index = 0, in_token = ''0a'', in_address = ''WBob''\<rparr>]
          = map fst (take k (scanned_outputs example_api
                               \<lparr>historyTransactions = example_history\<rparr> ''0a'')) \<and>
        Finite 80 = computed_total (scanned_outputs example_api
                              \<lparr>historyTransactions = example_history\<rparr> ''0a'') k \<and>
        js_ge (computed_total (scanned_outputs example_api
                              \<lparr>historyTransactions = example_history\<rparr> ''0a'') k) 40 \<and>
        (\<forall>j. 1 \<le> j \<and> j < k \<longrightarrow>
           \<not> js_ge (computed_total (scanned_outputs example_api
                            \<lparr>historyTransactions = example_history\<rparr> ''0a'') j) 40)"
    by (simp only: example_select_40 option.case melt_inputs.simps)
  then have c': "\<exists>k. 1 \<le> k \<and>
        k \<le> length (scanned_outputs example_api
                       \<lparr>historyTransactions = example_history\<rparr> ''0a'') \<and>
        Finite 80 = computed_total (scanned_outputs example_api
                              \<lparr>historyTransactions = example_history\<rparr> ''0a'') k \<and>
        js_ge (computed_total (scanned_outputs example_api
                              \<lparr>historyTransactions = example_history\<rparr> ''0a'') k) 40"
    by blast
  have len: "(1::nat) \<le> 3 \<and> 3 \<le> length (scanned_outputs example_api
                    \<lparr>historyTransactions = example_history\<rparr> ''0a'')"
    by (simp add: example_scanned)
  have b': "running_total (scanned_outputs example_api
                    \<lparr>historyTransactions = example_history\<rparr> ''0a'') 3 < 101"
    using b [unfolded example_select_101 option.case, rule_format, OF len] .
  show ?thesis
    by (intro conjI example_data example_exact_range example_select_40 a' c'
        example_select_101 b')
qed

text \<open>
  The selector never returns an empty selection. With a target of zero the running total
  reaches the target before any output is added, and yet the selector returns \<open>null\<close> on a
  history without eligible outputs, and one output (not none) on the example history.
  And the totals are sums of doubles: three eligible outputs of \<open>2 ^ 53\<close>, 1 and 1 have the
  sum \<open>2 ^ 53 + 2\<close>, but the computed total stays at \<open>2 ^ 53\<close>, so that for the target
  \<open>2 ^ 53 + 2\<close> the selector returns \<open>null\<close>.
\<close>

theorem C1_zero_target_counterexample:
  "0 \<le> running_total (scanned_outputs example_api \<lparr>historyTransactions = []\<rparr> ''0a'') 0 \<and>
   getMeltInputs example_api ([], 0) 0 ''0a'' = None \<and>
   getMeltInputs example_api (example_history, 0) 0 ''0a'' =
     Some \<lparr>mi_inputs =
             [\<lparr>in_tx_id = ''t1'', in_index = 1, in_token = ''0a'', in_address = ''WAlice''\<rparr>],
           mi_inputsAmount = Finite 30\<rparr> \<and>
   running_total (scanned_outputs example_api \<lparr>historyTransactions = big_history_1\<rparr> ''0a'') 3
     = 2 ^ 53 + 2 \<and>
   getMeltInputs example_api (big_history_1, 0) (2 ^ 53 + 2) ''0a'' = None"
  by code_simp

section \<open>Properties of melting\<close>

lemma selection_is_prefix:
  assumes d: "getWalletData api w = Some data"
    and sel: "getMeltInputs api w amount token = Some r"
  shows "1 \<le> length (mi_inputs r) \<and>
         length (mi_inputs r) \<le> length (scanned_outputs api data token) \<and>
         mi_inputs r = map fst (take (length (mi_inputs r)) (scanned_outputs api data token)) \<and>
         mi_inputsAmount r
           = computed_total (scanned_outputs api data token) (length (mi_inputs r))"
proof -
  from getMeltInputs_computed [OF d, where amount = amount and token = token] sel
  obtain k where k: "1 \<le> k" "k \<le> length (scanned_outputs api data token)"
    "mi_inputs r = map fst (take k (scanned_outputs api data token))"
    "mi_inputsAmount r = computed_total (scanned_outputs api data token) k"
    by auto
  have "length (mi_inputs r) = k" using k(2,3) by simp
  with k show ?thesis by simp
qed

lemma selection_total_exact:
  assumes d: "getWalletData api w = Some data"
    and ex: "exact_range (scanned_outputs api data token)"
    and sel: "getMeltInputs api w amount token = Some r"
  shows "mi_inputsAmount r
           = Finite (running_total (scanned_outputs api data token) (length (mi_inputs r)))"
  using selection_is_prefix [OF d sel] computed_total_exact [OF ex] by simp



lemma meltTokens_exact:
  assumes "getMeltInputs api (wallet world) amount token = Some r"
    and "mi_inputsAmount r = Finite amount" and "\<not> createAnotherMelt"
  shows "meltTokens api consts backend txId index addressSpent token amount pin createAnotherMelt world
     = (let data = \<lparr>tx_inputs = \<lparr>in_tx_id = txId, in_index = index, in_token = token,
                                   in_address = addressSpent\<rparr> # mi_inputs r,
                     tx_outputs = [],
                     tx_tokens = [UidString token]\<rparr>
        in (Some (backend (sent world) data pin), world\<lparr>sent := sent world @ [(data, pin)]\<rparr>))"
  using assms
  by (simp add: meltTokens_def sendTransaction_def Let_def split: prod.splits)



lemma example_world_wallet: "wallet example_world = (example_history, 0)"
  by (simp add: example_world_def)


lemma example_select_80:
  "getMeltInputs example_api (example_history, 0) 80 ''0a'' =
   Some \<lparr>mi_inputs =
           [\<lparr>in_tx_id = ''t1'', in_index = 1, in_token = ''0a'', in_address = ''WAlice''\<rparr>,
            \<lparr>in_tx_id = ''t3'', in_index = 0, in_token = ''0a'', in_address = ''WBob''\<rparr>],
         mi_inputsAmount = Finite 80\<rparr>"
  by (simp add: getMeltInputs_def example_api_def example_history_def)

lemma example_total_2:
  "running_total (scanned_outputs example_api \<lparr>historyTransactions = example_history\<rparr> ''0a'')
     (length [\<lparr>in_tx_id = ''t1'', in_index = 1, in_token = ''0a'', in_address = ''WAlice''\<rparr>,
              \<lparr>in_tx_id = ''t3'', in_index = 0, in_token = ''0a'', in_address = ''WBob''\<rparr>])
   = 80"
  by (simp add: example_scanned running_total_def)




text \<open>
  Claim C10, as amended. When the computed total of the selected inputs equals the amount
  and no new melt authority is asked for, the transaction data that \<open>meltTokens\<close> sends has
  no outputs; its inputs are the melt authority input followed by the selected inputs,
  and its tokens are the one token. No address is taken from the wallet. As long as every
  running total of the eligible outputs has a magnitude of at most \<open>2 ^ 53\<close>, the computed
  total is the sum of the selected values, so the same holds when that sum equals the
  amount.
\<close>

theorem C10_melt_exact_amount_no_outputs:
  "(\<forall>r. getMeltInputs api (wallet world) amount token = Some r \<and>
        mi_inputsAmount r = Finite amount \<and> \<not> createAnotherMelt \<longrightarrow>
      meltTokens api consts backend txId index addressSpent token amount pin
        createAnotherMelt world =
      (Some (backend (sent world)
               \<lparr>tx_inputs = \<lparr>in_tx_id = txId, in_index = index, in_token = token,
                              in_address = addressSpent\<rparr> # mi_inputs r,
                 tx_outputs = [],
                 tx_tokens = [UidString token]\<rparr> pin),
       world\<lparr>sent := sent world @
                [(\<lparr>tx_inputs = \<lparr>in_tx_id = txId, in_index = index, in_token = token,
                                in_address = addressSpent\<rparr> # mi_inputs r,
                   tx_outputs = [],
                   tx_tokens = [UidString token]\<rparr>, pin)]\<rparr>)) \<and>
   (\<forall>wdata r. getWalletData api (wallet world) = Some wdata \<and>
        exact_range (scanned_outputs api wdata token) \<and>
        getMeltInputs api (wallet world) amount token = Some r \<and>
        running_total (scanned_outputs api wdata token) (length (mi_inputs r)) = amount \<and>
        \<not> createAnotherMelt \<longrightarrow>
      meltTokens api consts backend txId index addressSpent token amount pin
        createAnotherMelt world =
      (Some (backend (sent world)
               \<lparr>tx_inputs = \<lparr>in_tx_id = txId, in_index = index, in_token = token,
                              in_address = addressSpent\<rparr> # mi_inputs r,
                 tx_outputs = [],
                 tx_tokens = [UidString token]\<rparr> pin),
       world\<lparr>sent := sent world @
                [(\<lparr>tx_inputs = \<lparr>in_tx_id = txId, in_index = index, in_token = token,
                                in_address = addressSpent\<rparr> # mi_inputs r,
                   tx_outputs = [],
                   tx_tokens = [UidString token]\<rparr>, pin)]\<rparr>))"
proof (intro conjI allI impI)
  fix r
  assume "getMeltInputs api (wallet world) amount token = Some r \<and>
        mi_inputsAmount r = Finite amount \<and> \<not> createAnotherMelt"
  then show "meltTokens api consts backend txId index addressSpent token amount pin
        createAnotherMelt world =
      (Some (backend (sent world)
               \<lparr>tx_inputs = \<lparr>in_tx_id = txId, in_index = index, in_token = token,
                              in_address = addressSpent\<rparr> # mi_inputs r,
                 tx_outputs = [],
                 tx_tokens = [UidString token]\<rparr> pin),
       world\<lparr>sent := sent world @
                [(\<lparr>tx_inputs = \<lparr>in_tx_id = txId, in_index = index, in_token = token,
                                in_address = addressSpent\<rparr> # mi_inputs r,
                   tx_outputs = [],
                   tx_tokens = [UidString token]\<rparr>, pin)]\<rparr>)"
    using meltTokens_exact [of api world amount token r createAnotherMelt "consts" backend txId
        index addressSpent pin]
    by (simp add: Let_def)
next
  fix wdata r
  assume a: "getWalletData api (wallet world) = Some wdata \<and>
        exact_range (scanned_outputs api wdata token) \<and>
        getMeltInputs api (wallet world) amount token = Some r \<and>
        running_total (scanned_outputs api wdata token) (length (mi_inputs r)) = amount \<and>
        \<not> createAnotherMelt"
  then have "mi_inputsAmount r = Finite amount"
    using selection_total_exact [of api "wallet world" wdata token amount r] by simp
  with a show "meltTokens api consts backend txId index addressSpent token amount pin
        createAnotherMelt world =
      (Some (backend (sent world)
               \<lparr>tx_inputs = \<lparr>in_tx_id = txId, in_index = index, in_token = token,
                              in_address = addressSpent\<rparr> # mi_inputs r,
                 tx_outputs = [],
                 tx_tokens = [UidString token]\<rparr> pin),
       world\<lparr>sent := sent world @
                [(\<lparr>tx_inputs = \<lparr>in_tx_id = txId, in_index = index, in_token = token,
                                in_address = addressSpent\<rparr> # mi_inputs r,
                   tx_outputs = [],
                   tx_tokens = [UidString token]\<rparr>, pin)]\<rparr>)"
    using meltTokens_exact [of api world amount token r createAnotherMelt "consts" backend txId
        index addressSpent pin]
    by (simp add: Let_def)
qed

theorem C10_melt_exact_amount_no_outputs_witness:
  "getMeltInputs example_api (wallet example_world) 80 ''0a'' =
     Some \<lparr>mi_inputs =
             [\<lparr>in_tx_id = ''t1'', in_index = 1, in_token = ''0a'', in_address = ''WAlice''\<rparr>,
              \<lparr>in_tx_id = ''t3'', in_index = 0, in_token = ''0a'', in_address = ''WBob''\<rparr>],
           mi_inputsAmount = Finite 80\<rparr> \<and>
   getWalletData example_api (wallet example_world)
     = Some \<lparr>historyTransactions = example_history\<rparr> \<and>
   exact_range (scanned_outputs example_api \<lparr>historyTransactions = example_history\<rparr> ''0a'') \<and>
   running_total (scanned_outputs example_api \<lparr>historyTransactions = example_history\<rparr> ''0a'')
     (length (mi_inputs \<lparr>mi_inputs =
             [\<lparr>in_tx_id = ''t1'', in_index = 1, in_token = ''0a'', in_address = ''WAlice''\<rparr>,
              \<lparr>in_tx_id = ''t3'', in_index = 0, in_token = ''0a'', in_address = ''WBob''\<rparr>],
           mi_inputsAmount = Finite 80\<rparr>)) = 80 \<and>
   meltTokens example_api example_constants accepting_backend ''ta'' 0 ''WAlice'' ''0a'' 80
     ''1234'' False example_world =
     (Some (Resolved \<lparr>resp_tx_hash = ''h1'', resp_tx_token0 = ''0a''\<rparr>),
      example_world
        \<lparr>sent :=
           [(\<lparr>tx_inputs =
                [\<lparr>in_tx_id = ''ta'', in_index = 0, in_token = ''0a'', in_address = ''WAlice''\<rparr>,
                 \<lparr>in_tx_id = ''t1'', in_index = 1, in_token = ''0a'', in_address = ''WAlice''\<rparr>,
                 \<lparr>in_tx_id = ''t3'', in_index = 0, in_token = ''0a'', in_address = ''WBob''\<rparr>],
              tx_outputs = [],
              tx_tokens = [UidString ''0a'']\<rparr>, ''1234'')]\<rparr>)"
proof -
  have sel: "getMeltInputs example_api (wallet example_world) 80 ''0a'' =
     Some \<lparr>mi_inputs =
             [\<lparr>in_tx_id = ''t1'', in_index = 1, in_token = ''0a'', in_address = ''WAlice''\<rparr>,
              \<lparr>in_tx_id = ''t3'', in_index = 0, in_token = ''0a'', in_address = ''WBob''\<rparr>],
           mi_inputsAmount = Finite 80\<rparr>"
    by (simp only: example_world_wallet example_select_80)
  have d: "getWalletData example_api (wallet example_world)
     = Some \<lparr>historyTransactions = example_history\<rparr>"
    by (simp only: example_world_wallet example_data)
  have exact: "running_total
       (scanned_outputs example_api \<lparr>historyTransactions = example_history\<rparr> ''0a'')
       (length (mi_inputs \<lparr>mi_inputs =
             [\<lparr>in_tx_id = ''t1'', in_index = 1, in_token = ''0a'', in_address = ''WAlice''\<rparr>,
              \<lparr>in_tx_id = ''t3'', in_index = 0, in_token = ''0a'', in_address = ''WBob''\<rparr>],
           mi_inputsAmount = Finite 80\<rparr>)) = 80"
    by (simp only: melt_inputs.simps example_total_2)
  have no: "\<not> False" by simp
  note a = C10_melt_exact_amount_no_outputs
    [of example_api example_world 80 "''0a''" False example_constants accepting_backend
        "''ta''" 0 "''WAlice''" "''1234''",
      THEN conjunct2, rule_format,
      OF conjI [OF d conjI [OF example_exact_range conjI [OF sel conjI [OF exact no]]]]]
  have "meltTokens example_api example_constants accepting_backend ''ta'' 0 ''WAlice'' ''0a'' 80
     ''1234'' False example_world =
     (Some (Resolved \<lparr>resp_tx_hash = ''h1'', resp_tx_token0 = ''0a''\<rparr>),
      example_world
        \<lparr>sent :=
           [(\<lparr>tx_inputs =
                [\<lparr>in_tx_id = ''ta'', in_index = 0, in_token = ''0a'', in_address = ''WAlice''\<rparr>,
                 \<lparr>in_tx_id = ''t1'', in_index = 1, in_token = ''0a'', in_address = ''WAlice''\<rparr>,
                 \<lparr>in_tx_id = ''t3'', in_index = 0, in_token = ''0a'', in_address = ''WBob''\<rparr>],
              tx_outputs = [],
              tx_tokens = [UidString ''0a'']\<rparr>, ''1234'')]\<rparr>)"
    using a by (simp add: accepting_backend_def example_world_def)
  with sel d example_exact_range exact show ?thesis by (intro conjI)
qed

text \<open>
  Around \<open>2 ^ 53\<close> inputs that total exactly the amount do not give an empty output list.
  The eligible outputs of \<open>2 ^ 53 + 2\<close>, 1 and 3 total \<open>2 ^ 53 + 6\<close>; for that amount all
  three are selected, but their computed total is \<open>2 ^ 53 + 8\<close> and a change output of
  value 2 is sent.
\<close>

theorem C10_exact_sum_with_change_counterexample:
  "running_total (scanned_outputs example_api \<lparr>historyTransactions = big_history_3\<rparr> ''0a'') 3
     = 2 ^ 53 + 6 \<and>
   getMeltInputs example_api (big_history_3, 0) (2 ^ 53 + 6) ''0a'' =
     Some \<lparr>mi_inputs =
             [\<lparr>in_tx_id = ''tb'', in_index = 0, in_token = ''0a'', in_address = ''WAlice''\<rparr>,
              \<lparr>in_tx_id = ''tb'', in_index = 1, in_token = ''0a'', in_address = ''WAlice''\<rparr>,
              \<lparr>in_tx_id = ''tb'', in_index = 2, in_token = ''0a'', in_address = ''WAlice''\<rparr>],
           mi_inputsAmount = Finite (2 ^ 53 + 8)\<rparr> \<and>
   sent (snd (meltTokens example_api example_constants accepting_backend ''ta'' 0 ''WAlice''
                ''0a'' (2 ^ 53 + 6) ''1234'' False (world_with big_history_3)))
     = [(\<lparr>tx_inputs =
            [\<lparr>in_tx_id = ''ta'', in_index = 0, in_token = ''0a'', in_address = ''WAlice''\<rparr>,
             \<lparr>in_tx_id = ''tb'', in_index = 0, in_token = ''0a'', in_address = ''WAlice''\<rparr>,
             \<lparr>in_tx_id = ''tb'', in_index = 1, in_token = ''0a'', in_address = ''WAlice''\<rparr>,
             \<lparr>in_tx_id = ''tb'', in_index = 2, in_token = ''0a'', in_address = ''WAlice''\<rparr>],
          tx_outputs = [\<lparr>out_address = ''WNew'', out_value = Finite 2, out_tokenData = 1\<rparr>],
          tx_tokens = [UidString ''0a'']\<rparr>, ''1234'')]"
  by code_simp

section \<open>Properties of token creation\<close>

lemma createToken_sends_creation:
  assumes "getTokenUID codec (in_tx_id input) (in_index input) = Inr tokenUID"
  shows "createToken consts codec backend message_of input output' address name' symbol'
           mintAmount pin world =
     (let txData = creation_tx_data consts tokenUID input output' address;
          world1 = world\<lparr>sent := sent world @ [(txData, pin)]\<rparr>
      in case backend (sent world) txData pin of
           Rejected e \<Rightarrow> (Inr (Rejected (message_of e)), world1)
         | Pending \<Rightarrow> (Inr Pending, world1)
         | Resolved response \<Rightarrow>
             let mintData = followup_mint_tx_data consts response address mintAmount;
                 world3 = world\<lparr>registry :=
                                  Some (getTokens consts world @
                                        [\<lparr>uid = resp_tx_token0 response, name = name',
                                          symbol = symbol'\<rparr>]),
                                sent := sent world @ [(txData, pin), (mintData, pin)]\<rparr>
             in case backend (sent world @ [(txData, pin)]) mintData pin of
                  Resolved r \<Rightarrow>
                    (Inr (Resolved \<lparr>uid = resp_tx_token0 response, name = name',
                                    symbol = symbol'\<rparr>), world3)
                | Rejected message \<Rightarrow> (Inr (Rejected message), world3)
                | Pending \<Rightarrow> (Inr Pending, world3))"
  using assms
  by (simp add: createToken_def sendTransaction_def mintTokens_def addToken_def
      saveToStorage_def getTokens_def Let_def creation_tx_data_def followup_mint_tx_data_def
      split: promise.splits)

text \<open>
  Claim C6. \<open>createToken\<close> works in two phases. When the creation (first phase) is
  rejected with \<open>e\<close>, the returned promise rejects with \<open>e.message\<close>, the creation is the
  only transaction that was sent (no mint is attempted), and the registry is untouched;
  an exception while computing the uid leaves before anything is sent. When the creation
  resolves and the mint that follows (second phase) is rejected, the returned promise
  rejects with the rejection value of the mint, while the new token is in the registry
  and both transactions have been sent.
\<close>

theorem C6_createToken_two_phases:
  "(\<forall>x. getTokenUID codec (in_tx_id input) (in_index input) = Inl x \<longrightarrow>
      createToken consts codec backend message_of input output' address name' symbol'
        mintAmount pin world = (Inl x, world)) \<and>
   (\<forall>tokenUID e.
      getTokenUID codec (in_tx_id input) (in_index input) = Inr tokenUID \<and>
      backend (sent world) (creation_tx_data consts tokenUID input output' address) pin
        = Rejected e \<longrightarrow>
      createToken consts codec backend message_of input output' address name' symbol'
        mintAmount pin world =
        (Inr (Rejected (message_of e)),
         world\<lparr>sent := sent world @
                  [(creation_tx_data consts tokenUID input output' address, pin)]\<rparr>)) \<and>
   (\<forall>tokenUID response m.
      getTokenUID codec (in_tx_id input) (in_index input) = Inr tokenUID \<and>
      backend (sent world) (creation_tx_data consts tokenUID input output' address) pin
        = Resolved response \<and>
      backend (sent world @ [(creation_tx_data consts tokenUID input output' address, pin)])
        (followup_mint_tx_data consts response address mintAmount) pin = Rejected m \<longrightarrow>
      createToken consts codec backend message_of input output' address name' symbol'
        mintAmount pin world =
        (Inr (Rejected m),
         world\<lparr>registry :=
                  Some (getTokens consts world @
                        [\<lparr>uid = resp_tx_token0 response, name = name', symbol = symbol'\<rparr>]),
                sent := sent world @
                  [(creation_tx_data consts tokenUID input output' address, pin),
                   (followup_mint_tx_data consts response address mintAmount, pin)]\<rparr>))"
proof (intro conjI allI impI)
  fix x
  assume "getTokenUID codec (in_tx_id input) (in_index input) = Inl x"
  then show "createToken consts codec backend message_of input output' address name' symbol'
        mintAmount pin world = (Inl x, world)"
    by (simp add: createToken_def)
next
  fix tokenUID e
  assume a: "getTokenUID codec (in_tx_id input) (in_index input) = Inr tokenUID \<and>
      backend (sent world) (creation_tx_data consts tokenUID input output' address) pin
        = Rejected e"
  then show "createToken consts codec backend message_of input output' address name' symbol'
        mintAmount pin world =
        (Inr (Rejected (message_of e)),
         world\<lparr>sent := sent world @
                  [(creation_tx_data consts tokenUID input output' address, pin)]\<rparr>)"
    by (simp add: createToken_sends_creation [of codec input tokenUID] Let_def)
next
  fix tokenUID response m
  assume a: "getTokenUID codec (in_tx_id input) (in_index input) = Inr tokenUID \<and>
      backend (sent world) (creation_tx_data consts tokenUID input output' address) pin
        = Resolved response \<and>
      backend (sent world @ [(creation_tx_data consts tokenUID input output' address, pin)])
        (followup_mint_tx_data consts response address mintAmount) pin = Rejected m"
  then show "createToken consts codec backend message_of input output' address name' symbol'
        mintAmount pin world =
        (Inr (Rejected m),
         world\<lparr>registry :=
                  Some (getTokens consts world @
                        [\<lparr>uid = resp_tx_token0 response, name = name', symbol = symbol'\<rparr>]),
                sent := sent world @
                  [(creation_tx_data consts tokenUID input output' address, pin),
                   (followup_mint_tx_data consts response address mintAmount, pin)]\<rparr>)"
    by (simp add: createToken_sends_creation [of codec input tokenUID] Let_def)
qed

lemma example_token_uid:
  "getTokenUID example_codec (in_tx_id example_input) (in_index example_input) = Inr [97, 98, 2]"
  by (simp add: getTokenUID_def example_codec_def example_input_def)

theorem C6_createToken_two_phases_witness:
  "getTokenUID example_codec (in_tx_id example_input) (in_index example_input)
     = Inr [97, 98, 2] \<and>
   refusing_backend (sent example_world)
     (creation_tx_data example_constants [97, 98, 2] example_input example_change ''WAlice'')
     ''1234'' = Rejected ''refused'' \<and>
   createToken example_constants example_codec refusing_backend example_message_of
     example_input example_change ''WAlice'' ''Gamma'' ''GAM'' 500 ''1234'' example_world =
     (Inr (Rejected ''message of refused''),
      example_world
        \<lparr>sent := sent example_world @
           [(creation_tx_data example_constants [97, 98, 2] example_input example_change
               ''WAlice'', ''1234'')]\<rparr>) \<and>
   mint_refusing_backend (sent example_world)
     (creation_tx_data example_constants [97, 98, 2] example_input example_change ''WAlice'')
     ''1234'' = Resolved \<lparr>resp_tx_hash = ''h1'', resp_tx_token0 = ''0c''\<rparr> \<and>
   mint_refusing_backend
     (sent example_world @
        [(creation_tx_data example_constants [97, 98, 2] example_input example_change
            ''WAlice'', ''1234'')])
     (followup_mint_tx_data example_constants
        \<lparr>resp_tx_hash = ''h1'', resp_tx_token0 = ''0c''\<rparr> ''WAlice'' 500)
     ''1234'' = Rejected ''mint refused'' \<and>
   createToken example_constants example_codec mint_refusing_backend example_message_of
     example_input example_change ''WAlice'' ''Gamma'' ''GAM'' 500 ''1234'' example_world =
     (Inr (Rejected ''mint refused''),
      example_world
        \<lparr>registry :=
           Some [\<lparr>uid = ''00'', name = ''Hathor'', symbol = ''HTR''\<rparr>,
                 \<lparr>uid = ''0c'', name = ''Gamma'', symbol = ''GAM''\<rparr>],
         sent := sent example_world @
           [(creation_tx_data example_constants [97, 98, 2] example_input example_change
               ''WAlice'', ''1234''),
            (followup_mint_tx_data example_constants
               \<lparr>resp_tx_hash = ''h1'', resp_tx_token0 = ''0c''\<rparr> ''WAlice'' 500,
             ''1234'')]\<rparr>)"
proof -
  have r1: "refusing_backend (sent example_world)
     (creation_tx_data example_constants [97, 98, 2] example_input example_change ''WAlice'')
     ''1234'' = Rejected ''refused''"
    by (simp add: refusing_backend_def)
  have m1: "mint_refusing_backend (sent example_world)
     (creation_tx_data example_constants [97, 98, 2] example_input example_change ''WAlice'')
     ''1234'' = Resolved \<lparr>resp_tx_hash = ''h1'', resp_tx_token0 = ''0c''\<rparr>"
    by (simp add: mint_refusing_backend_def example_world_def)
  have m2: "mint_refusing_backend
     (sent example_world @
        [(creation_tx_data example_constants [97, 98, 2] example_input example_change
            ''WAlice'', ''1234'')])
     (followup_mint_tx_data example_constants
        \<lparr>resp_tx_hash = ''h1'', resp_tx_token0 = ''0c''\<rparr> ''WAlice'' 500)
     ''1234'' = Rejected ''mint refused''"
    by (simp add: mint_refusing_backend_def)
  have toks: "getTokens example_constants example_world
              = [\<lparr>uid = ''00'', name = ''Hathor'', symbol = ''HTR''\<rparr>]"
    by (simp add: getTokens_def example_world_def example_constants_def)
  note a = C6_createToken_two_phases
    [of example_codec example_input example_constants refusing_backend
        example_message_of example_change "''WAlice''" "''Gamma''" "''GAM''" 500
        "''1234''" example_world,
      THEN conjunct2, THEN conjunct1, rule_format, OF conjI [OF example_token_uid r1]]
  note b = C6_createToken_two_phases
    [of example_codec example_input example_constants mint_refusing_backend
        example_message_of example_change "''WAlice''" "''Gamma''" "''GAM''" 500
        "''1234''" example_world,
      THEN conjunct2, THEN conjunct2, rule_format,
      OF conjI [OF example_token_uid conjI [OF m1 m2]]]
  have a': "createToken example_constants example_codec refusing_backend
     example_message_of example_input example_change ''WAlice'' ''Gamma'' ''GAM'' 500 ''1234'' example_world =
     (Inr (Rejected ''message of refused''),
      example_world
        \<lparr>sent := sent example_world @
           [(creation_tx_data example_constants [97, 98, 2] example_input example_change
               ''WAlice'', ''1234'')]\<rparr>)"
    using a by (simp add: example_message_of_def)
  have b': "createToken example_constants example_codec mint_refusing_backend
     example_message_of example_input example_change ''WAlice'' ''Gamma'' ''GAM'' 500 ''1234'' example_world =
     (Inr (Rejected ''mint refused''),
      example_world
        \<lparr>registry :=
           Some [\<lparr>uid = ''00'', name = ''Hathor'', symbol = ''HTR''\<rparr>,
                 \<lparr>uid = ''0c'', name = ''Gamma'', symbol = ''GAM''\<rparr>],
         sent := sent example_world @
           [(creation_tx_data example_constants [97, 98, 2] example_input example_change
               ''WAlice'', ''1234''),
            (followup_mint_tx_data example_constants
               \<lparr>resp_tx_hash = ''h1'', resp_tx_token0 = ''0c''\<rparr> ''WAlice'' 500,
             ''1234'')]\<rparr>)"
    using b by (simp add: toks)
  show ?thesis
    by (intro conjI example_token_uid r1 a' m1 m2 b')
qed

section \<open>Properties of the mining state machine\<close>

lemma run_Nil: "run env s [] = s"
  by (simp add: run_def)

lemma run_Cons: "run env s (msg # msgs) = run env (step env s msg) msgs"
  by (simp add: run_def)

lemma run_append: "run env s (xs @ ys) = run env (run env s xs) ys"
  by (simp add: run_def)

lemma answers_append: "answers (xs @ ys) = answers xs @ answers ys"
  by (induction xs) auto

lemma step_terminal:
  assumes "phase s = Failed \<or> phase s = Done"
    and "more_submitting s = 0" and "more_polling s = 0" and "msg \<noteq> Start"
  shows "step env s msg = s"
  using assms by (cases msg) auto

lemma run_terminal:
  assumes "phase s = Failed \<or> phase s = Done"
    and "more_submitting s = 0" and "more_polling s = 0" and "Start \<notin> set msgs"
  shows "run env s msgs = s"
  using assms(4)
proof (induction msgs)
  case Nil
  show ?case by (simp add: run_Nil)
next
  case (Cons a msgs)
  then have "a \<noteq> Start" and "Start \<notin> set msgs" by auto
  then show ?case
    using Cons.IH by (simp add: run_Cons step_terminal [OF assms(1-3)])
qed

lemma resubmissions_after_poll:
  "length (filter is_submission
             (dropWhile (\<lambda>e. \<not> is_poll e) (tr @ Emit ev # GetJobStatus j p # ys)))
   = length (filter is_submission (dropWhile (\<lambda>e. \<not> is_poll e) tr))
     + length (filter is_submission ys)"
proof (cases "\<forall>e\<in>set tr. \<not> is_poll e")
  case True
  then have d1: "dropWhile (\<lambda>e. \<not> is_poll e) (tr @ Emit ev # GetJobStatus j p # ys)
             = GetJobStatus j p # ys"
    by (simp add: dropWhile_append2)
  from True have d2: "dropWhile (\<lambda>e. \<not> is_poll e) tr = []"
    by (simp add: dropWhile_eq_Nil_conv)
  show ?thesis unfolding d1 d2 by simp
next
  case False
  then obtain e where "e \<in> set tr" "\<not> \<not> is_poll e" by blast
  then have "dropWhile (\<lambda>e. \<not> is_poll e) (tr @ Emit ev # GetJobStatus j p # ys)
             = dropWhile (\<lambda>e. \<not> is_poll e) tr @ Emit ev # GetJobStatus j p # ys"
    by (rule dropWhile_append1)
  then show ?thesis by simp
qed

lemma cycle_resubmits:
  assumes "phase s = Submitting" "accepted r" "timed_out t"
    and "countTxMiningAttempts s < maxTxMiningRetries s"
  shows "step env (step env s (SubmitResponded r)) (StatusResponded t) =
         s\<lparr>estimation := Some (sr_expected_total_time r),
           jobID := Some (sr_job_id r),
           countTxMiningAttempts := countTxMiningAttempts s + 1,
           phase := Submitting,
           trace := trace s @
             [Emit (JobSubmitted (Some (sr_expected_total_time r)) (Some (sr_job_id r))),
              GetJobStatus (Some (sr_job_id r))
                (max (sr_expected_total_time r / 2) (MIN_POLLING_INTERVAL env) * 1000),
              SubmitJob (toHex_of env (transaction s))]\<rparr>"
  using assms
  by (simp add: onSubmitResponse_def handleJobStatus_def emit_def onJobStatus_def submitJob_def
      accepted_def timed_out_def Let_def)

lemma cycle_fails:
  assumes "phase s = Submitting" "accepted r" "timed_out t"
    and "\<not> countTxMiningAttempts s < maxTxMiningRetries s"
  shows "step env (step env s (SubmitResponded r)) (StatusResponded t) =
         s\<lparr>estimation := Some (sr_expected_total_time r),
           jobID := Some (sr_job_id r),
           phase := Failed,
           trace := trace s @
             [Emit (JobSubmitted (Some (sr_expected_total_time r)) (Some (sr_job_id r))),
              GetJobStatus (Some (sr_job_id r))
                (max (sr_expected_total_time r / 2) (MIN_POLLING_INTERVAL env) * 1000),
              Emit (SendError timeoutError)]\<rparr>"
  using assms
  by (simp add: onSubmitResponse_def handleJobStatus_def emit_def onJobStatus_def submitJob_def
      accepted_def timed_out_def Let_def)

lemma timeout_cycles_resubmit:
  assumes "phase s = Submitting"
    and "\<forall>(r, t)\<in>set cs. accepted r \<and> timed_out t"
    and "cs \<noteq> [] \<longrightarrow> countTxMiningAttempts s + int (length cs) \<le> maxTxMiningRetries s"
  shows "phase (run env s (answers cs)) = Submitting \<and>
         countTxMiningAttempts (run env s (answers cs))
           = countTxMiningAttempts s + int (length cs) \<and>
         maxTxMiningRetries (run env s (answers cs)) = maxTxMiningRetries s \<and>
         transaction (run env s (answers cs)) = transaction s \<and>
         submissions (run env s (answers cs)) = submissions s + length cs \<and>
         resubmissions (run env s (answers cs)) = resubmissions s + length cs \<and>
         polls (run env s (answers cs)) = polls s + length cs \<and>
         more_submitting (run env s (answers cs)) = more_submitting s \<and>
         more_polling (run env s (answers cs)) = more_polling s \<and>
         (cs \<noteq> [] \<longrightarrow>
            last (trace (run env s (answers cs))) = SubmitJob (toHex_of env (transaction s)))"
  using assms
proof (induction cs arbitrary: s)
  case Nil
  then show ?case by (simp add: run_Nil)
next
  case (Cons c cs)
  obtain r t where c: "c = (r, t)" by (cases c)
  define s1 where "s1 = step env (step env s (SubmitResponded r)) (StatusResponded t)"
  have acc: "accepted r" "timed_out t" using Cons.prems(2) c by auto
  have lt: "countTxMiningAttempts s < maxTxMiningRetries s"
    using Cons.prems(3) by simp
  note eq = cycle_resubmits [OF Cons.prems(1) acc lt, of env, folded s1_def]
  have p1: "phase s1 = Submitting"
    and c1: "countTxMiningAttempts s1 = countTxMiningAttempts s + 1"
    and m1: "maxTxMiningRetries s1 = maxTxMiningRetries s"
    and t1: "transaction s1 = transaction s"
    and w1: "more_submitting s1 = more_submitting s" "more_polling s1 = more_polling s"
    by (simp_all add: eq)
  have sub1: "submissions s1 = submissions s + 1"
    and pol1: "polls s1 = polls s + 1"
    by (simp_all add: eq submissions_def polls_def)
  have res1: "resubmissions s1 = resubmissions s + 1"
    using resubmissions_after_poll
      [of "trace s" "JobSubmitted (Some (sr_expected_total_time r)) (Some (sr_job_id r))"
          "Some (sr_job_id r)"
          "max (sr_expected_total_time r / 2) (MIN_POLLING_INTERVAL env) * 1000"
          "[SubmitJob (toHex_of env (transaction s))]"]
    by (simp add: eq resubmissions_def)
  have last1: "last (trace s1) = SubmitJob (toHex_of env (transaction s))"
    by (simp add: eq)
  have all: "\<forall>(r, t)\<in>set cs. accepted r \<and> timed_out t"
    using Cons.prems(2) by simp
  have bound: "cs \<noteq> [] \<longrightarrow> countTxMiningAttempts s1 + int (length cs) \<le> maxTxMiningRetries s1"
    using Cons.prems(3) by (simp add: c1 m1)
  note ih = Cons.IH [OF p1 all bound]
  have r: "run env s (answers (c # cs)) = run env s1 (answers cs)"
    by (simp add: c run_Cons s1_def)
  show ?case
  proof (cases "cs = []")
    case True
    have "run env s (answers (c # cs)) = s1"
      unfolding r using True by (simp add: run_Nil)
    then show ?thesis
      by (simp add: True p1 c1 m1 t1 w1 sub1 pol1 res1 last1)
  next
    case False
    with ih show ?thesis
      by (simp add: r c1 m1 t1 w1 sub1 pol1 res1)
  qed
qed

lemma started:
  "step env (new_SendTransaction tx m) Start =
     \<lparr>transaction = tx, estimation = None, jobID = None, countTxMiningAttempts = 1,
      maxTxMiningRetries = m, phase = Submitting, trace = [SubmitJob (toHex_of env tx)],
      more_submitting = 0, more_polling = 0\<rparr>"
  by (simp add: new_SendTransaction_def start_def submitJob_def suspend_def)

text \<open>
  Claim C2, as amended. Take a run in which every submission is accepted and every status
  poll reports \<open>timeout\<close>. The attempt counter counts the first submission too, and a
  timeout leads to a resubmission while the counter is below \<open>maxTxMiningRetries\<close>. So the
  machine submits \<open>max 1 maxTxMiningRetries\<close> times in all (the first submission and, for
  a maximum of at least one, \<open>maxTxMiningRetries - 1\<close> resubmissions), polls as often, and
  each timeout but the last is followed by a full resubmission: the machine is back in
  \<open>Submitting\<close> right after a new call of \<open>submitJob\<close>. The last timeout moves it to
  \<open>Failed\<close> with the timeout error; no callback is left then, and no answer of the
  service changes the object any more. For a maximum of at least one the number of
  submissions does not exceed the maximum. All this is about an object that is started
  once: \<open>start\<close> has no guard, and calling it again after the failure submits once more.
\<close>

theorem C2_timeouts_until_failure:
  assumes len: "length cs = nat (max 1 m)"
    and all: "\<forall>(r, t)\<in>set cs. accepted r \<and> timed_out t"
  shows "phase (run env (new_SendTransaction tx m) (Start # answers cs)) = Failed \<and>
         last (trace (run env (new_SendTransaction tx m) (Start # answers cs)))
           = Emit (SendError timeoutError) \<and>
         submissions (run env (new_SendTransaction tx m) (Start # answers cs))
           = nat (max 1 m) \<and>
         resubmissions (run env (new_SendTransaction tx m) (Start # answers cs))
           = nat (max 1 m) - 1 \<and>
         polls (run env (new_SendTransaction tx m) (Start # answers cs)) = nat (max 1 m) \<and>
         (1 \<le> m \<longrightarrow>
            int (submissions (run env (new_SendTransaction tx m) (Start # answers cs))) \<le> m) \<and>
         (\<forall>k < length cs.
            phase (run env (new_SendTransaction tx m) (Start # answers (take k cs)))
              = Submitting \<and>
            submissions (run env (new_SendTransaction tx m) (Start # answers (take k cs)))
              = k + 1 \<and>
            last (trace (run env (new_SendTransaction tx m) (Start # answers (take k cs))))
              = SubmitJob (toHex_of env tx)) \<and>
         (\<forall>msgs. Start \<notin> set msgs \<longrightarrow>
                 run env (run env (new_SendTransaction tx m) (Start # answers cs)) msgs
                 = run env (new_SendTransaction tx m) (Start # answers cs)) \<and>
         submissions (step env (run env (new_SendTransaction tx m) (Start # answers cs)) Start)
           = nat (max 1 m) + 1"
proof -
  define s1 :: "('a, 'b) send_transaction" where
    "s1 = step env (new_SendTransaction tx m) Start"
  have s1: "phase s1 = Submitting" "countTxMiningAttempts s1 = 1" "maxTxMiningRetries s1 = m"
    "transaction s1 = tx" "trace s1 = [SubmitJob (toHex_of env tx)]"
    "more_submitting s1 = 0" "more_polling s1 = 0"
    unfolding s1_def started by simp_all
  have cnt1: "submissions s1 = 1" "resubmissions s1 = 0" "polls s1 = 0"
    by (simp_all add: submissions_def resubmissions_def polls_def s1)
  have run1: "run env (new_SendTransaction tx m) (Start # msgs) = run env s1 msgs" for msgs
    unfolding s1_def by (rule run_Cons)
  have N: "1 \<le> length cs" using len by simp
  \<comment> \<open>every proper prefix of the run ends in a resubmission\<close>
  have prefix: "phase (run env s1 (answers (take k cs))) = Submitting \<and>
         countTxMiningAttempts (run env s1 (answers (take k cs))) = 1 + int k \<and>
         maxTxMiningRetries (run env s1 (answers (take k cs))) = m \<and>
         transaction (run env s1 (answers (take k cs))) = tx \<and>
         submissions (run env s1 (answers (take k cs))) = k + 1 \<and>
         resubmissions (run env s1 (answers (take k cs))) = k \<and>
         polls (run env s1 (answers (take k cs))) = k \<and>
         more_submitting (run env s1 (answers (take k cs))) = 0 \<and>
         more_polling (run env s1 (answers (take k cs))) = 0 \<and>
         last (trace (run env s1 (answers (take k cs)))) = SubmitJob (toHex_of env tx)"
    if k: "k < length cs" for k
  proof -
    have lk: "length (take k cs) = k" using k by simp
    have allk: "\<forall>(r, t)\<in>set (take k cs). accepted r \<and> timed_out t"
      using all by (meson in_set_takeD)
    have bound: "take k cs \<noteq> [] \<longrightarrow>
        countTxMiningAttempts s1 + int (length (take k cs)) \<le> maxTxMiningRetries s1"
      using k len by (simp add: s1 lk) linarith
    note L = timeout_cycles_resubmit [OF s1(1) allk bound, of env]
    show ?thesis
    proof (cases "k = 0")
      case True
      then show ?thesis by (simp add: run_Nil s1 cnt1)
    next
      case False
      then have "take k cs \<noteq> []" using k by auto
      with L k show ?thesis by (simp add: s1 cnt1 min_def)
    qed
  qed
  \<comment> \<open>the last cycle fails\<close>
  define k where "k = length cs - 1"
  have k: "k < length cs" and Sk: "Suc k = length cs" using N by (simp_all add: k_def)
  obtain r t where last_c: "cs ! k = (r, t)" by (cases "cs ! k")
  have cs_split: "cs = take k cs @ [(r, t)]"
    using k Sk last_c by (metis take_Suc_conv_app_nth take_all le_refl)
  define s2 where "s2 = run env s1 (answers (take k cs))"
  note P = prefix [OF k, folded s2_def]
  have acc: "accepted r" "timed_out t"
    using all k last_c by (metis case_prodD nth_mem)+
  have ge: "\<not> countTxMiningAttempts s2 < maxTxMiningRetries s2"
    using P len Sk by simp
  define final where "final = step env (step env s2 (SubmitResponded r)) (StatusResponded t)"
  have P1: "phase s2 = Submitting" using P by simp
  note eq = cycle_fails [OF P1 acc ge, of env, folded final_def]
  have fin: "run env (new_SendTransaction tx m) (Start # answers cs) = final"
    unfolding run1
    by (subst cs_split) (simp add: answers_append run_append run_Cons run_Nil s2_def final_def)
  have f1: "phase final = Failed" by (simp add: eq)
  have f2: "last (trace final) = Emit (SendError timeoutError)" by (simp add: eq)
  have f3: "submissions final = submissions s2" and f5: "polls final = polls s2 + 1"
    by (simp_all add: eq submissions_def polls_def)
  have f4: "resubmissions final = resubmissions s2"
    using resubmissions_after_poll
      [of "trace s2" "JobSubmitted (Some (sr_expected_total_time r)) (Some (sr_job_id r))"
          "Some (sr_job_id r)"
          "max (sr_expected_total_time r / 2) (MIN_POLLING_INTERVAL env) * 1000"
          "[Emit (SendError timeoutError)]"]
    by (simp add: eq resubmissions_def)
  have n: "nat (max 1 m) = Suc k" using len Sk by simp
  have c1: "submissions final = nat (max 1 m)" using P f3 n by simp
  have c2: "resubmissions final = nat (max 1 m) - 1" using P f4 n by simp
  have c3: "polls final = nat (max 1 m)" using P f5 n by simp
  have c4: "1 \<le> m \<longrightarrow> int (submissions final) \<le> m" using c1 by simp
  have c5: "\<forall>k < length cs.
            phase (run env (new_SendTransaction tx m) (Start # answers (take k cs)))
              = Submitting \<and>
            submissions (run env (new_SendTransaction tx m) (Start # answers (take k cs)))
              = k + 1 \<and>
            last (trace (run env (new_SendTransaction tx m) (Start # answers (take k cs))))
              = SubmitJob (toHex_of env tx)"
    using prefix by (simp add: run1)
  have f6: "more_submitting final = 0" "more_polling final = 0"
    using P by (simp_all add: eq)
  have c6: "\<forall>msgs. Start \<notin> set msgs \<longrightarrow> run env final msgs = final"
    using f1 f6 by (simp add: run_terminal)
  have "submissions (step env final Start) = submissions final + 1"
    by (simp add: start_def submitJob_def suspend_def submissions_def f1)
  with c1 have c7: "submissions (step env final Start) = nat (max 1 m) + 1"
    by simp
  show ?thesis
    unfolding fin using f1 f2 c1 c2 c3 c4 c5 c6 c7 by blast
qed

theorem C2_timeouts_until_failure_witness:
  "length (example_timeouts 3) = nat (max 1 default_maxTxMiningRetries) \<and>
   accepted example_accept \<and> timed_out example_timeout \<and>
   phase (run example_env (new_SendTransaction ''00ff'' default_maxTxMiningRetries)
            (Start # answers (example_timeouts 3))) = Failed \<and>
   last (trace (run example_env (new_SendTransaction ''00ff'' default_maxTxMiningRetries)
                  (Start # answers (example_timeouts 3)))) = Emit (SendError timeoutError) \<and>
   submissions (run example_env (new_SendTransaction ''00ff'' default_maxTxMiningRetries)
                  (Start # answers (example_timeouts 3))) = 3 \<and>
   resubmissions (run example_env (new_SendTransaction ''00ff'' default_maxTxMiningRetries)
                    (Start # answers (example_timeouts 3))) = 2 \<and>
   polls (run example_env (new_SendTransaction ''00ff'' default_maxTxMiningRetries)
            (Start # answers (example_timeouts 3))) = 3 \<and>
   phase (run example_env (new_SendTransaction ''00ff'' default_maxTxMiningRetries)
            (Start # answers (take 2 (example_timeouts 3)))) = Submitting \<and>
   submissions (run example_env (new_SendTransaction ''00ff'' default_maxTxMiningRetries)
                  (Start # answers (take 2 (example_timeouts 3)))) = 3"
proof -
  have len: "length (example_timeouts 3) = nat (max 1 default_maxTxMiningRetries)"
    by (simp add: example_timeouts_def default_maxTxMiningRetries_def)
  have a: "accepted example_accept" and t: "timed_out example_timeout"
    by (simp_all add: accepted_def timed_out_def example_accept_def example_timeout_def)
  then have all: "\<forall>(r, t)\<in>set (example_timeouts 3). accepted r \<and> timed_out t"
    by (simp add: example_timeouts_def)
  note inst = C2_timeouts_until_failure [OF len all, of example_env "''00ff''"]
  have n: "nat (max 1 default_maxTxMiningRetries) = 3"
    by (simp add: default_maxTxMiningRetries_def)
  have two: "2 < length (example_timeouts 3)"
    by (simp add: example_timeouts_def)
  from inst have k2:
    "phase (run example_env (new_SendTransaction ''00ff'' default_maxTxMiningRetries)
            (Start # answers (take 2 (example_timeouts 3)))) = Submitting \<and>
     submissions (run example_env (new_SendTransaction ''00ff'' default_maxTxMiningRetries)
                  (Start # answers (take 2 (example_timeouts 3)))) = 2 + 1"
    using two by blast
  show ?thesis
    using len a t inst k2 by (simp add: n)
qed

text \<open>
  With the default maximum of three, three timeouts in a row end the run after two
  resubmissions, not three, whether or not more timeouts would follow. With a maximum of
  zero the machine still submits once, which is more than the maximum.
\<close>

theorem C2_resubmission_count_counterexample:
  "phase (run example_env (new_SendTransaction ''00ff'' default_maxTxMiningRetries)
            (Start # answers (example_timeouts 3))) = Failed \<and>
   resubmissions (run example_env (new_SendTransaction ''00ff'' default_maxTxMiningRetries)
                    (Start # answers (example_timeouts 3))) = 2 \<and>
   resubmissions (run example_env (new_SendTransaction ''00ff'' default_maxTxMiningRetries)
                    (Start # answers (example_timeouts 4))) = 2 \<and>
   int (resubmissions (run example_env (new_SendTransaction ''00ff'' default_maxTxMiningRetries)
                    (Start # answers (example_timeouts 4)))) \<noteq> default_maxTxMiningRetries \<and>
   submissions (run example_env (new_SendTransaction ''00ff'' 0)
                  (Start # answers (example_timeouts 1))) = 1 \<and>
   \<not> int (submissions (run example_env (new_SendTransaction ''00ff'' 0)
                  (Start # answers (example_timeouts 1)))) \<le> 0"
  by code_simp

text \<open>
  Claim C8. When the answer to the first submission carries an expected total time of -1,
  the machine moves to \<open>Failed\<close>: all it has done is the one call of \<open>submitJob\<close> and the
  emission of \<open>send-error\<close> with the no-miners message. It has set no timer and made no
  status request.
\<close>

theorem C8_no_miners_on_first_submission:
  assumes "sr_expected_total_time r = - 1"
  shows "phase (run env (new_SendTransaction tx m) [Start, SubmitResponded r]) = Failed \<and>
         trace (run env (new_SendTransaction tx m) [Start, SubmitResponded r])
           = [SubmitJob (toHex_of env tx), Emit (SendError noMinersError)] \<and>
         polls (run env (new_SendTransaction tx m) [Start, SubmitResponded r]) = 0 \<and>
         submissions (run env (new_SendTransaction tx m) [Start, SubmitResponded r]) = 1"
proof -
  have "run env (new_SendTransaction tx m) [Start, SubmitResponded r]
        = \<lparr>transaction = tx, estimation = None, jobID = None, countTxMiningAttempts = 1,
           maxTxMiningRetries = m, phase = Failed,
           trace = [SubmitJob (toHex_of env tx), Emit (SendError noMinersError)],
           more_submitting = 0, more_polling = 0\<rparr>"
    using assms
    by (simp add: run_def new_SendTransaction_def start_def submitJob_def onSubmitResponse_def
        emit_def suspend_def)
  then show ?thesis
    by (simp add: polls_def submissions_def)
qed

theorem C8_no_miners_on_first_submission_witness:
  "sr_expected_total_time example_no_miners = - 1 \<and>
   phase (run example_env (new_SendTransaction ''00ff'' 3) [Start, SubmitResponded example_no_miners])
     = Failed \<and>
   trace (run example_env (new_SendTransaction ''00ff'' 3) [Start, SubmitResponded example_no_miners])
     = [SubmitJob ''00ff'', Emit (SendError noMinersError)] \<and>
   polls (run example_env (new_SendTransaction ''00ff'' 3) [Start, SubmitResponded example_no_miners])
     = 0"
proof -
  have h: "sr_expected_total_time example_no_miners = - 1"
    by (simp add: example_no_miners_def)
  have hex: "toHex_of example_env ''00ff'' = ''00ff''"
    by (simp add: example_env_def)
  from C8_no_miners_on_first_submission [OF h, of example_env "''00ff''" 3] h
  show ?thesis by (simp add: hex)
qed

text \<open>
  Claim C7, as amended. Let the machine wait for a status answer, and let the answer carry
  a status that is neither \<open>done\<close> nor \<open>timeout\<close>. When its expected total time is not -1,
  the machine stores that time as its estimation, emits \<open>estimation-updated\<close> with the job
  and the new estimation, sets the timer for the next status request and stays in
  \<open>Polling\<close>. When the expected total time is -1 it emits \<open>send-error\<close> with the no-miners
  message and moves to \<open>Failed\<close>, without touching the estimation.
\<close>

theorem C7_other_status_keeps_polling:
  assumes "phase s = Polling"
    and "st_status r \<noteq> ''done''" and "st_status r \<noteq> ''timeout''"
  shows "(st_expected_total_time r \<noteq> - 1 \<longrightarrow>
            step env s (StatusResponded r) =
              s\<lparr>estimation := Some (st_expected_total_time r),
                phase := Polling,
                trace := trace s @
                  [Emit (EstimationUpdated (jobID s) (st_expected_total_time r)),
                   GetJobStatus (jobID s)
                     (max (st_expected_total_time r / 2) (MIN_POLLING_INTERVAL env) * 1000)]\<rparr>) \<and>
         (st_expected_total_time r = - 1 \<longrightarrow>
            step env s (StatusResponded r) =
              s\<lparr>phase := Failed, trace := trace s @ [Emit (SendError noMinersError)]\<rparr>)"
  using assms
  by (simp add: onJobStatus_def handleJobStatus_def emit_def Let_def)

lemma polling_state_reached:
  "run example_env (new_SendTransaction ''00ff'' 3) [Start, SubmitResponded example_accept]
   = polling_state"
  by (simp add: run_def new_SendTransaction_def start_def submitJob_def onSubmitResponse_def
      handleJobStatus_def emit_def example_accept_def example_env_def polling_state_def Let_def
      suspend_def)

theorem C7_other_status_keeps_polling_witness:
  "phase polling_state = Polling \<and>
   st_status example_mining \<noteq> ''done'' \<and> st_status example_mining \<noteq> ''timeout'' \<and>
   st_expected_total_time example_mining \<noteq> - 1 \<and>
   step example_env polling_state (StatusResponded example_mining) =
     polling_state
       \<lparr>estimation := Some 6, phase := Polling,
        trace := trace polling_state @
          [Emit (EstimationUpdated (Some ''job1'') 6), GetJobStatus (Some ''job1'') 3000]\<rparr>"
proof -
  have p: "phase polling_state = Polling" by (simp add: polling_state_def)
  have d: "st_status example_mining \<noteq> ''done''" and t: "st_status example_mining \<noteq> ''timeout''"
    and e: "st_expected_total_time example_mining \<noteq> - 1"
    by (simp_all add: example_mining_def)
  have v: "st_expected_total_time example_mining = 6" "jobID polling_state = Some ''job1''"
    "MIN_POLLING_INTERVAL example_env = 1 / 2"
    by (simp_all add: example_mining_def polling_state_def example_env_def)
  from C7_other_status_keeps_polling [OF p d t, of example_env, THEN conjunct1, rule_format, OF e]
  have "step example_env polling_state (StatusResponded example_mining) =
     polling_state
       \<lparr>estimation := Some 6, phase := Polling,
        trace := trace polling_state @
          [Emit (EstimationUpdated (Some ''job1'') 6), GetJobStatus (Some ''job1'') 3000]\<rparr>"
    by (simp add: v)
  with p d t e show ?thesis by (intro conjI)
qed

text \<open>
  A status answer that is neither \<open>done\<close> nor \<open>timeout\<close> does end the run when it reports
  that no miners are left: no estimation is stored, no next poll is set.
\<close>

theorem C7_no_miners_while_polling_counterexample:
  "phase polling_state = Polling \<and>
   st_status example_mining_no_miners \<noteq> ''done'' \<and>
   st_status example_mining_no_miners \<noteq> ''timeout'' \<and>
   phase (step example_env polling_state (StatusResponded example_mining_no_miners)) = Failed \<and>
   estimation (step example_env polling_state (StatusResponded example_mining_no_miners))
     = Some 10 \<and>
   estimation (step example_env polling_state (StatusResponded example_mining_no_miners))
     \<noteq> Some (st_expected_total_time example_mining_no_miners) \<and>
   trace (step example_env polling_state (StatusResponded example_mining_no_miners))
     = trace polling_state @ [Emit (SendError noMinersError)]"
  by (simp add: polling_state_def example_mining_no_miners_def onJobStatus_def emit_def)

end
